theory Spec2Isabelle
  imports Complex_Main "HOL-Library.AList"
begin

section \<open>JavaScript values and the transport\<close>

text \<open>
  The mirror stores whatever the OSC receiver hands to a listener, so every mirrored
  field is a JavaScript value: \<open>undefined\<close>, a boolean (only the initial
  \<open>false\<close> of a clip name), a number or a string. Numbers are never computed
  with, only stored, compared and counted to, so they are reals.

  One simplification is made throughout: a string is taken to differ from every number,
  boolean and \<open>undefined\<close>, both under \<open>==\<close> and as a property
  key, where JavaScript would first convert it. The model is exact on messages whose
  identifiers, indices and values are numbers, which is what the remote application
  sends.
\<close>

datatype jsval = Undef | Boolean bool | Num real | Str string

fun loose_eq :: "jsval \<Rightarrow> jsval \<Rightarrow> bool" where
  "loose_eq Undef Undef = True"
| "loose_eq (Boolean a) (Boolean b) = (a = b)"
| "loose_eq (Num a) (Num b) = (a = b)"
| "loose_eq (Str a) (Str b) = (a = b)"
| "loose_eq (Boolean a) (Num b) = ((if a then 1 else 0) = b)"
| "loose_eq (Num a) (Boolean b) = (a = (if b then 1 else 0))"
| "loose_eq _ _ = False"

definition loose_ne :: "jsval \<Rightarrow> jsval \<Rightarrow> bool" where
  "loose_ne a b = (\<not> loose_eq a b)"

fun truthy :: "jsval \<Rightarrow> bool" where
  "truthy Undef = False"
| "truthy (Boolean b) = b"
| "truthy (Num r) = (r \<noteq> 0)"
| "truthy (Str s) = (s \<noteq> [])"

text \<open>\<open>x || 0\<close>\<close>

definition or_zero :: "jsval \<Rightarrow> jsval" where
  "or_zero x = (if truthy x then x else Num 0)"

text \<open>\<open>x > 0\<close>\<close>

fun gt_zero :: "jsval \<Rightarrow> bool" where
  "gt_zero (Num r) = (0 < r)"
| "gt_zero (Boolean b) = b"
| "gt_zero _ = False"

text \<open>
  The number of rounds of \<open>for (var i = 0; i < n; i++)\<close>: the naturals below
  \<open>n\<close>.
\<close>

fun rounds :: "jsval \<Rightarrow> nat" where
  "rounds (Num r) = nat \<lceil>r\<rceil>"
| "rounds (Boolean b) = (if b then 1 else 0)"
| "rounds _ = 0"

text \<open>Reading a positional argument that was not passed gives \<open>undefined\<close>.\<close>

definition arg :: "jsval list \<Rightarrow> nat \<Rightarrow> jsval" where
  "arg args i = (if i < length args then args ! i else Undef)"

text \<open>
  \<open>args.shift()\<close> returns \<open>arg args 0\<close> and leaves \<open>tl args\<close>
  (\<open>tl [] = []\<close>).
\<close>

text \<open>An outbound argument \<open>{type: t, value: v}\<close>, and an outbound message.\<close>

datatype oscarg = Typed string jsval

type_synonym message = "string \<times> oscarg list"

section \<open>The mirrored objects\<close>

type_synonym ref = nat

text \<open>
  An entry of a device's parameter table. A property that was never assigned reads as
  \<open>undefined\<close>, so the empty object is the entry with every field
  \<open>Undef\<close>.
\<close>

record param =
  p_id :: jsval
  p_value :: jsval
  p_name :: jsval
  p_min :: jsval
  p_max :: jsval

definition empty_param :: param where
  "empty_param = \<lparr>p_id = Undef, p_value = Undef, p_name = Undef, p_min = Undef, p_max = Undef\<rparr>"

text \<open>The object a device was given as its \<open>track\<close>.\<close>

datatype owner = TrackObj ref | ReturnObj ref | SongObj

text \<open>
  A device, with the names under which the application listens on the device's own event
  emitter, one for each call of \<open>on\<close>. The callbacks themselves are not part
  of the model.
\<close>

record device =
  d_name :: jsval
  d_id :: jsval
  d_track :: owner
  d_type :: string
  d_params :: "(jsval \<times> param) list"
  d_on :: "jsval list"

record clip =
  c_track :: ref
  c_id :: jsval
  c_name :: jsval
  c_state :: jsval
  c_coarse :: jsval
  c_fine :: jsval
  c_loopstart :: jsval
  c_loopend :: jsval
  c_loopstate :: jsval
  c_warping :: jsval
  c_length :: jsval

record track =
  t_id :: jsval
  t_name :: jsval
  t_clips :: "ref list"
  t_sends :: "jsval \<Rightarrow> jsval"
  t_devices :: "ref list"
  t_audio :: jsval
  t_solo :: jsval
  t_mute :: jsval
  t_arm :: jsval
  t_volume :: jsval
  t_pan :: jsval
  t_numScenes :: jsval

record return =
  r_name :: jsval
  r_id :: jsval
  r_solo :: jsval
  r_mute :: jsval
  r_volume :: jsval
  r_pan :: jsval
  r_devices :: "ref list"
  r_sends :: "jsval \<Rightarrow> jsval"

record song =
  s_tempo :: jsval
  s_tracks :: "ref list"
  s_returns :: "ref list"
  s_devices :: "ref list"
  s_volume :: jsval
  s_pan :: jsval
  s_scene :: jsval
  s_beat :: jsval
  s_playing :: jsval

section \<open>Listeners, events and the world\<close>

text \<open>
  A listener is a closure of one object: the object and which of its listener functions
  it is.
\<close>

datatype track_listener =
  T_send | T_solo | T_arm | T_mute | T_pan | T_volume | T_trackinfo | T_devicelist | T_name

datatype return_listener =
  R_send | R_solo | R_mute | R_volume | R_pan | R_info | R_devicelist | R_name

datatype clip_listener =
  C_loopstart | C_loopend | C_loopstate | C_warping | C_pitch | C_clipinfo | C_clipname

datatype device_listener = D_range | D_allParam | D_param

datatype song_listener =
  S_play | S_beat | S_tempo | S_scene | S_volume | S_pan | S_tracks | S_returns | S_scenes
  | S_devicelist | S_refresh | S_time

datatype listener =
  TrackL ref track_listener
  | ReturnL ref return_listener
  | ClipL ref clip_listener
  | DeviceL ref device_listener
  | SongL song_listener

text \<open>
  An emitted event: the event emitter it is emitted on, its name, and its one argument
  (\<open>None\<close> when \<open>emit\<close> is called with the name alone). A global name
  \<open>'track:' + ev\<close> is kept as the prefix and \<open>ev\<close>.
\<close>

datatype sink = TrackSink ref | ReturnSink ref | ClipSink ref | DeviceSink ref | SongSink

datatype evname = Plain jsval | Prefixed string jsval

type_synonym payload = "(string \<times> jsval) list"

type_synonym event = "sink \<times> evname \<times> payload option"

text \<open>
  The world: the song, the objects ever constructed (a store for each class, with the
  number of objects allocated), the receiver's subscriptions in the order of
  registration, the messages handed to the emitter, the events emitted, the properties
  that listeners set on \<open>this\<close>, which is the receiver when the receiver calls
  them, and the number of pending \<open>/live/time\<close> timers.
\<close>

record world =
  w_song :: song
  trackH :: "ref \<Rightarrow> track"
  trackN :: nat
  returnH :: "ref \<Rightarrow> return"
  returnN :: nat
  clipH :: "ref \<Rightarrow> clip"
  clipN :: nat
  deviceH :: "ref \<Rightarrow> device"
  deviceN :: nat
  subs :: "(string \<times> listener) list"
  sent :: "message list"
  events :: "event list"
  rcv_volume :: jsval
  rcv_pan :: jsval
  rcv_devices :: "ref list option"
  timers :: nat

definition send :: "string \<Rightarrow> oscarg list \<Rightarrow> world \<Rightarrow> world" where
  "send addr as w = w\<lparr>sent := sent w @ [(addr, as)]\<rparr>"

definition emit :: "sink \<Rightarrow> evname \<Rightarrow> payload option \<Rightarrow> world \<Rightarrow> world" where
  "emit k ev p w = w\<lparr>events := events w @ [(k, ev, p)]\<rparr>"

definition on :: "string \<Rightarrow> listener \<Rightarrow> world \<Rightarrow> world" where
  "on addr l w = w\<lparr>subs := subs w @ [(addr, l)]\<rparr>"

text \<open>
  \<open>removeListener\<close> takes the most recently added registration of the listener
  under the address away, if there is one.
\<close>

definition removeListener :: "string \<Rightarrow> listener \<Rightarrow> world \<Rightarrow> world" where
  "removeListener addr l w = w\<lparr>subs := rev (remove1 (addr, l) (rev (subs w)))\<rparr>"

definition upd_track :: "ref \<Rightarrow> (track \<Rightarrow> track) \<Rightarrow> world \<Rightarrow> world" where
  "upd_track r f w = w\<lparr>trackH := (trackH w)(r := f (trackH w r))\<rparr>"

definition upd_return :: "ref \<Rightarrow> (return \<Rightarrow> return) \<Rightarrow> world \<Rightarrow> world" where
  "upd_return r f w = w\<lparr>returnH := (returnH w)(r := f (returnH w r))\<rparr>"

definition upd_clip :: "ref \<Rightarrow> (clip \<Rightarrow> clip) \<Rightarrow> world \<Rightarrow> world" where
  "upd_clip r f w = w\<lparr>clipH := (clipH w)(r := f (clipH w r))\<rparr>"

definition upd_device :: "ref \<Rightarrow> (device \<Rightarrow> device) \<Rightarrow> world \<Rightarrow> world" where
  "upd_device r f w = w\<lparr>deviceH := (deviceH w)(r := f (deviceH w r))\<rparr>"

definition upd_song :: "(song \<Rightarrow> song) \<Rightarrow> world \<Rightarrow> world" where
  "upd_song f w = w\<lparr>w_song := f (w_song w)\<rparr>"

text \<open>\<open>self.track.id\<close>; the song has no \<open>id\<close>.\<close>

fun owner_id :: "world \<Rightarrow> owner \<Rightarrow> jsval" where
  "owner_id w (TrackObj r) = t_id (trackH w r)"
| "owner_id w (ReturnObj r) = r_id (returnH w r)"
| "owner_id w SongObj = Undef"

text \<open>
  A call that may throw gives the exception or the return, and the world it leaves.
  The exceptions are the \<open>Error\<close> that \<open>Device.prototype.set\<close>
  throws, with its message, and the one that the \<open>emit\<close> of Node's
  \<open>EventEmitter\<close> throws when the event is named \<open>error\<close> and the
  emitter has no listener under that name.
\<close>

datatype error = Error string | UnhandledError

text \<open>The rest of a function body after a call that may throw.\<close>

fun and_then :: "(error + unit) \<times> world \<Rightarrow> (world \<Rightarrow> (error + unit) \<times> world)
    \<Rightarrow> (error + unit) \<times> world" where
  "and_then (Inl e, w) f = (Inl e, w)"
| "and_then (Inr u, w) f = f w"

section \<open>Device\<close>

definition infoAddr :: "string \<Rightarrow> string" where
  "infoAddr type = (if type \<noteq> ''track'' then ''/live/'' @ type @ ''/device'' else ''/live/device'')"

definition rangeAddr :: "string \<Rightarrow> string" where
  "rangeAddr type =
     (if type \<noteq> ''track'' then ''/live/'' @ type @ ''/device/range'' else ''/live/device/range'')"

definition paramAddr :: "string \<Rightarrow> string" where
  "paramAddr type =
     (if type \<noteq> ''track'' then ''/live/'' @ type @ ''/device/param'' else ''/live/device/param'')"

definition allParamAddr :: "string \<Rightarrow> string" where
  "allParamAddr type =
     (if type \<noteq> ''track''
      then (if type = ''master'' then ''/live/master/device''
            else ''/live/'' @ type @ ''/device/allparam'')
      else ''/live/device/allparam'')"

text \<open>
  \<open>Device.prototype.on\<close>: the application listens on the device's own emitter
  under the name.
\<close>

definition Device_on :: "ref \<Rightarrow> jsval \<Rightarrow> world \<Rightarrow> world" where
  "Device_on r ev w = upd_device r (\<lambda>d. d\<lparr>d_on := d_on d @ [ev]\<rparr>) w"

text \<open>
  \<open>Device.prototype.emitEvent\<close>: the device's own emitter, then the song's.
  The name is the name of a parameter when a parameter listener calls it, and the
  \<open>emit\<close> of the device's emitter throws when the name is the string
  \<open>error\<close> and the application does not listen under it; the song's emitter,
  whose event is named \<open>device:error\<close>, is then not reached.
\<close>

definition Device_emitEvent :: "ref \<Rightarrow> jsval \<Rightarrow> payload option \<Rightarrow> world
    \<Rightarrow> (error + unit) \<times> world" where
  "Device_emitEvent r ev params w =
     (let d = deviceH w r;
          globalParams = [(''id'', d_id d), (''type'', Str (d_type d))]
             @ (case params of None \<Rightarrow> [] | Some ps \<Rightarrow> ps)
             @ (if d_type d \<noteq> ''master'' then [(''trackId'', owner_id w (d_track d))] else [])
      in if ev = Str ''error'' \<and> Str ''error'' \<notin> set (d_on d) then (Inl UnhandledError, w)
         else (Inr (), emit SongSink (Prefixed ''device:'' ev) (Some globalParams)
                         (emit (DeviceSink r) (Plain ev) params w)))"

text \<open>
  \<open>self.params[k]\<close>, after \<open>if (!self.params[k]) self.params[k] = {}\<close>: an
  entry is an object, so it is truthy whenever it is there.
\<close>

definition param_at :: "(jsval \<times> param) list \<Rightarrow> jsval \<Rightarrow> param" where
  "param_at ps k = (case map_of ps k of None \<Rightarrow> empty_param | Some p \<Rightarrow> p)"

definition set_param :: "ref \<Rightarrow> jsval \<Rightarrow> param \<Rightarrow> world \<Rightarrow> world" where
  "set_param r k p w = upd_device r (\<lambda>d. d\<lparr>d_params := AList.update k p (d_params d)\<rparr>) w"

text \<open>One round of the loop of \<open>rangeListener\<close>.\<close>

definition range_step :: "ref \<Rightarrow> jsval \<Rightarrow> jsval \<Rightarrow> jsval \<Rightarrow> world \<Rightarrow> world" where
  "range_step r k mn mx w =
     set_param r k ((param_at (d_params (deviceH w r)) k)\<lparr>p_min := mn, p_max := mx\<rparr>) w"

fun range_loop :: "ref \<Rightarrow> jsval list \<Rightarrow> world \<Rightarrow> world" where
  "range_loop r [] w = w"
| "range_loop r [k] w = range_step r k Undef Undef w"
| "range_loop r [k, mn] w = range_step r k mn Undef w"
| "range_loop r (k # mn # mx # rest) w = range_loop r rest (range_step r k mn mx w)"

text \<open>
  The identity filter the three device listeners share: the track id unless the device
  is on the master track, then the device id. It gives the arguments that remain, or
  \<open>None\<close> when the listener returns.
\<close>

definition device_filter :: "ref \<Rightarrow> jsval list \<Rightarrow> world \<Rightarrow> jsval list option" where
  "device_filter r args w =
     (let d = deviceH w r in
      if d_type d \<noteq> ''master'' then
        (if loose_ne (arg args 0) (owner_id w (d_track d)) then None
         else if loose_ne (arg (tl args) 0) (d_id d) then None
         else Some (tl (tl args)))
      else
        (if loose_ne (arg args 0) (d_id d) then None else Some (tl args)))"

definition Device_rangeListener :: "ref \<Rightarrow> jsval list \<Rightarrow> world \<Rightarrow> world" where
  "Device_rangeListener r args w =
     (case device_filter r args w of None \<Rightarrow> w | Some rest \<Rightarrow> range_loop r rest w)"

text \<open>
  \<open>if (!self.params[k]) self.params[k] = {}\<close>, which the two listeners that
  emit do before they emit: the empty entry is there when \<open>emitEvent\<close> throws.
\<close>

definition ensure_param :: "ref \<Rightarrow> jsval \<Rightarrow> world \<Rightarrow> world" where
  "ensure_param r k w =
     (if map_of (d_params (deviceH w r)) k = None then set_param r k empty_param w else w)"

text \<open>
  One round of the loop of \<open>allParamListener\<close>. The events are emitted when the
  value is not the stored one, and the entry is assigned after them.
\<close>

definition allParam_step :: "ref \<Rightarrow> jsval \<Rightarrow> jsval \<Rightarrow> jsval \<Rightarrow> world
    \<Rightarrow> (error + unit) \<times> world" where
  "allParam_step r k v n w =
     (let w0 = ensure_param r k w;
          p = param_at (d_params (deviceH w0 r)) k;
          assign = (\<lambda>w'. (Inr (), set_param r k (p\<lparr>p_id := k, p_value := v, p_name := n\<rparr>) w'))
      in if loose_ne (p_value p) v
         then and_then (Device_emitEvent r (Str ''param'')
                          (Some [(''name'', n), (''value'', v), (''prev'', p_value p)]) w0)
                (\<lambda>w1. and_then (Device_emitEvent r n
                                   (Some [(''value'', v), (''prev'', p_value p)]) w1)
                        assign)
         else assign w0)"

text \<open>The loop ends where a round throws.\<close>

fun allParam_loop :: "ref \<Rightarrow> jsval list \<Rightarrow> world \<Rightarrow> (error + unit) \<times> world" where
  "allParam_loop r [] w = (Inr (), w)"
| "allParam_loop r [k] w = allParam_step r k Undef Undef w"
| "allParam_loop r [k, v] w = allParam_step r k v Undef w"
| "allParam_loop r (k # v # n # rest) w =
     (case allParam_step r k v n w of
        (Inl e, w') \<Rightarrow> (Inl e, w')
      | (Inr u, w') \<Rightarrow> allParam_loop r rest w')"

definition Device_allParamListener :: "ref \<Rightarrow> jsval list \<Rightarrow> world
    \<Rightarrow> (error + unit) \<times> world" where
  "Device_allParamListener r args w =
     (case device_filter r args w of
        None \<Rightarrow> (Inr (), w)
      | Some rest \<Rightarrow> allParam_loop r rest w)"

text \<open>\<open>paramListener\<close> reads one triple and emits whatever the stored value.\<close>

definition Device_paramListener :: "ref \<Rightarrow> jsval list \<Rightarrow> world
    \<Rightarrow> (error + unit) \<times> world" where
  "Device_paramListener r args w =
     (case device_filter r args w of
        None \<Rightarrow> (Inr (), w)
      | Some rest \<Rightarrow>
          (let k = arg rest 0; v = arg rest 1; n = arg rest 2;
               w0 = ensure_param r k w;
               p = param_at (d_params (deviceH w0 r)) k
           in and_then (Device_emitEvent r (Str ''param'')
                          (Some [(''name'', n), (''value'', v), (''prev'', p_value p)]) w0)
                (\<lambda>w1. and_then (Device_emitEvent r n
                                   (Some [(''value'', v), (''prev'', p_value p)]) w1)
                   (\<lambda>w2. (Inr (), set_param r k
                                    (p\<lparr>p_id := k, p_value := v, p_name := n\<rparr>) w2)))))"

text \<open>
  The arguments that lead every message about a device: the track id unless the device
  is on the master track, then the device id.
\<close>

definition device_path :: "string \<Rightarrow> jsval \<Rightarrow> jsval \<Rightarrow> oscarg list" where
  "device_path type track_id dev_id =
     (if type \<noteq> ''master'' then [Typed ''integer'' track_id] else [])
     @ [Typed ''integer'' dev_id]"

text \<open>
  \<open>new Device(liveosc, id, track, type, name)\<close>: the new object, its three
  subscriptions, and the two requests.
\<close>

definition new_device :: "jsval \<Rightarrow> owner \<Rightarrow> string \<Rightarrow> jsval \<Rightarrow> device" where
  "new_device dev_id track type name =
     \<lparr>d_name = name, d_id = dev_id, d_track = track, d_type = type, d_params = [],
      d_on = []\<rparr>"

definition Device :: "jsval \<Rightarrow> owner \<Rightarrow> string \<Rightarrow> jsval \<Rightarrow> world \<Rightarrow> ref \<times> world" where
  "Device dev_id track type name w =
     (let r = deviceN w;
          w1 = w\<lparr>deviceH := (deviceH w)(r := new_device dev_id track type name),
                 deviceN := Suc r\<rparr>;
          w2 = on (rangeAddr type) (DeviceL r D_range) w1;
          w3 = on (allParamAddr type) (DeviceL r D_allParam) w2;
          w4 = on (paramAddr type) (DeviceL r D_param) w3;
          w5 = send (infoAddr type) (device_path type (owner_id w track) dev_id) w4;
          w6 = send (rangeAddr type) (device_path type (owner_id w track) dev_id) w5
      in (r, w6))"

text \<open>
  The device's \<open>destroy\<close>. The event is named \<open>destroy\<close>, so
  \<open>emitEvent\<close> returns; \<open>removeAllListeners\<close> then leaves the
  device's emitter without a listener.
\<close>

definition Device_destroy :: "ref \<Rightarrow> world \<Rightarrow> world" where
  "Device_destroy r w =
     (let type = d_type (deviceH w r);
          w1 = snd (Device_emitEvent r (Str ''destroy'') None w);
          w2 = upd_device r (\<lambda>d. d\<lparr>d_on := []\<rparr>) w1;
          w3 = removeListener (rangeAddr type) (DeviceL r D_range) w2;
          w4 = removeListener (paramAddr type) (DeviceL r D_param) w3
      in removeListener (allParamAddr type) (DeviceL r D_allParam) w4)"

text \<open>
  \<open>_.findWhere(this.params, {name: param})\<close>: the first element of the array,
  by ascending index, whose \<open>name\<close> is the string. Only array indices are
  visited: the keys that are naturals below \<open>2^32 - 1\<close>.
\<close>

fun array_index :: "jsval \<Rightarrow> nat option" where
  "array_index (Num x) =
     (if 0 \<le> x \<and> x = of_int \<lfloor>x\<rfloor> \<and> x < 4294967295 then Some (nat \<lfloor>x\<rfloor>) else None)"
| "array_index _ = None"

fun findWhere_from :: "(nat \<times> param) option \<Rightarrow> (jsval \<times> param) list \<Rightarrow> string
    \<Rightarrow> (nat \<times> param) option" where
  "findWhere_from best [] name = best"
| "findWhere_from best ((k, p) # ps) name =
     (case array_index k of
        None \<Rightarrow> findWhere_from best ps name
      | Some i \<Rightarrow>
          if p_name p = Str name \<and> (case best of None \<Rightarrow> True | Some (j, q) \<Rightarrow> i < j)
          then findWhere_from (Some (i, p)) ps name
          else findWhere_from best ps name)"

definition findWhere :: "(jsval \<times> param) list \<Rightarrow> string \<Rightarrow> param option" where
  "findWhere ps name = map_option snd (findWhere_from None ps name)"

text \<open>
  \<open>Device.prototype.set\<close>. The parameter is a name (a string) or an id (anything
  else); an unknown name throws before anything is handed to the emitter.
\<close>

definition Device_set :: "ref \<Rightarrow> jsval \<Rightarrow> jsval \<Rightarrow> world \<Rightarrow> (error + unit) \<times> world" where
  "Device_set r param val w =
     (let d = deviceH w r;
          addr = (if d_type d = ''track'' then ''/live/device''
                  else ''/live/'' @ d_type d @ ''/device'');
          path = device_path (d_type d) (owner_id w (d_track d)) (d_id d)
      in case param of
           Str name \<Rightarrow>
             (case findWhere (d_params d) name of
                Some prm \<Rightarrow>
                  (Inr (), send addr (path @ [Typed ''integer'' (p_id prm), Typed ''integer'' val]) w)
              | None \<Rightarrow> (Inl (Error (''No parameter with name '' @ name)), w))
         | _ \<Rightarrow> (Inr (), send addr (path @ [Typed ''integer'' param, Typed ''integer'' val]) w))"

text \<open>
  \<open>Device.prototype.view\<close>: the argument pushed when the device is not on the
  master track is the device's id, as the one that follows.
\<close>

definition Device_view :: "ref \<Rightarrow> world \<Rightarrow> world" where
  "Device_view r w =
     (let d = deviceH w r in
      send (''/live/'' @ d_type d @ ''/device/view'')
        ((if d_type d \<noteq> ''master'' then [Typed ''integer'' (d_id d)] else [])
         @ [Typed ''integer'' (d_id d)]) w)"

section \<open>Clip\<close>

definition Clip_emitEvent :: "ref \<Rightarrow> jsval \<Rightarrow> payload option \<Rightarrow> world \<Rightarrow> world" where
  "Clip_emitEvent r ev params w =
     (let c = clipH w r;
          globalParams = [(''id'', c_id c), (''trackId'', t_id (trackH w (c_track c)))]
             @ (case params of None \<Rightarrow> [] | Some ps \<Rightarrow> ps)
      in emit SongSink (Prefixed ''clip:'' ev) (Some globalParams)
           (emit (ClipSink r) (Plain ev) params w))"

text \<open>
  The identity filter of every clip listener: \<open>True\<close> when the listener returns.
\<close>

definition clip_foreign :: "ref \<Rightarrow> jsval list \<Rightarrow> world \<Rightarrow> bool" where
  "clip_foreign r args w =
     (let c = clipH w r in
      if loose_ne (t_id (trackH w (c_track c))) (arg args 0) then True
      else loose_ne (c_id c) (arg args 1))"

definition clip_path :: "ref \<Rightarrow> world \<Rightarrow> oscarg list" where
  "clip_path r w =
     [Typed ''integer'' (t_id (trackH w (c_track (clipH w r)))),
      Typed ''integer'' (c_id (clipH w r))]"

definition Clip_refresh :: "ref \<Rightarrow> world \<Rightarrow> world" where
  "Clip_refresh r w =
     (let path = clip_path r w;
          w1 = send ''/live/clip/loopstart'' path w;
          w2 = send ''/live/clip/loopend'' path w1;
          w3 = send ''/live/clip/loopstate'' path w2;
          w4 = (if truthy (t_audio (trackH w (c_track (clipH w r))))
                then send ''/live/pitch'' path (send ''/live/clip/warping'' path w3)
                else w3)
      in if c_name (clipH w r) = Boolean False then send ''/live/name/clip'' path w4 else w4)"

definition Clip_loopstartListener :: "ref \<Rightarrow> jsval list \<Rightarrow> world \<Rightarrow> world" where
  "Clip_loopstartListener r args w =
     (if clip_foreign r args w then w
      else let loopstart = arg args 2;
               w1 = Clip_emitEvent r (Str ''loopstart'')
                      (Some [(''value'', loopstart), (''prev'', c_loopstart (clipH w r))]) w
           in upd_clip r (\<lambda>c. c\<lparr>c_loopstart := loopstart\<rparr>) w1)"

definition Clip_loopendListener :: "ref \<Rightarrow> jsval list \<Rightarrow> world \<Rightarrow> world" where
  "Clip_loopendListener r args w =
     (if clip_foreign r args w then w
      else let loopend = arg args 2;
               w1 = Clip_emitEvent r (Str ''loopend'')
                      (Some [(''value'', loopend), (''prev'', c_loopend (clipH w r))]) w
           in upd_clip r (\<lambda>c. c\<lparr>c_loopend := loopend\<rparr>) w1)"

definition Clip_loopstateListener :: "ref \<Rightarrow> jsval list \<Rightarrow> world \<Rightarrow> world" where
  "Clip_loopstateListener r args w =
     (if clip_foreign r args w then w
      else let loopstate = arg args 2;
               w1 = Clip_emitEvent r (Str ''loopstate'')
                      (Some [(''value'', loopstate), (''prev'', c_loopstate (clipH w r))]) w
           in upd_clip r (\<lambda>c. c\<lparr>c_loopstate := loopstate\<rparr>) w1)"

definition Clip_warpingListener :: "ref \<Rightarrow> jsval list \<Rightarrow> world \<Rightarrow> world" where
  "Clip_warpingListener r args w =
     (if clip_foreign r args w then w
      else let warping = arg args 2;
               w1 = Clip_emitEvent r (Str ''warping'')
                      (Some [(''value'', warping), (''prev'', c_warping (clipH w r))]) w
           in upd_clip r (\<lambda>c. c\<lparr>c_warping := warping\<rparr>) w1)"

definition Clip_pitchListener :: "ref \<Rightarrow> jsval list \<Rightarrow> world \<Rightarrow> world" where
  "Clip_pitchListener r args w =
     (if clip_foreign r args w then w
      else let coarse = arg args 2; fine = arg args 3;
               w1 = Clip_emitEvent r (Str ''coarse'')
                      (Some [(''value'', coarse), (''prev'', c_coarse (clipH w r))]) w;
               w2 = Clip_emitEvent r (Str ''fine'')
                      (Some [(''value'', fine), (''prev'', c_fine (clipH w r))]) w1
           in upd_clip r (\<lambda>c. c\<lparr>c_coarse := or_zero coarse, c_fine := or_zero fine\<rparr>) w2)"

definition Clip_clipinfoListener :: "ref \<Rightarrow> jsval list \<Rightarrow> world \<Rightarrow> world" where
  "Clip_clipinfoListener r args w =
     (if clip_foreign r args w then w
      else let state = arg args 2; len = arg args 3;
               w1 = Clip_emitEvent r (Str ''state'')
                      (Some [(''value'', state), (''prev'', c_state (clipH w r))]) w;
               w2 = upd_clip r (\<lambda>c. c\<lparr>c_state := state, c_length := len\<rparr>) w1
           in if gt_zero state then Clip_refresh r w2
              else upd_clip r (\<lambda>c. c\<lparr>c_name := Str ''''\<rparr>) w2)"

definition Clip_clipnameListener :: "ref \<Rightarrow> jsval list \<Rightarrow> world \<Rightarrow> world" where
  "Clip_clipnameListener r args w =
     (if clip_foreign r args w then w
      else let name = arg args 2;
               w1 = Clip_emitEvent r (Str ''name'')
                      (Some [(''value'', name), (''prev'', c_name (clipH w r))]) w;
               w2 = upd_clip r (\<lambda>c. c\<lparr>c_name := name\<rparr>) w1
           in send ''/live/clip/info'' (clip_path r w2) w2)"

text \<open>
  The addresses a clip subscribes to, each with its listener, in the order of the
  constructor.
\<close>

definition clip_subs :: "ref \<Rightarrow> (string \<times> listener) list" where
  "clip_subs r =
     [(''/live/clip/loopstart'', ClipL r C_loopstart),
      (''/live/clip/loopend'', ClipL r C_loopend),
      (''/live/clip/loopstate'', ClipL r C_loopstate),
      (''/live/clip/warping'', ClipL r C_warping),
      (''/live/pitch'', ClipL r C_pitch),
      (''/live/clip/info'', ClipL r C_clipinfo),
      (''/live/name/clip'', ClipL r C_clipname)]"

text \<open>\<open>new Clip(liveosc, track, id)\<close>\<close>

text \<open>The fields of a new clip.\<close>

definition new_clip :: "ref \<Rightarrow> jsval \<Rightarrow> clip" where
  "new_clip track clip_id = \<lparr>c_track = track, c_id = clip_id, c_name = Boolean False,
     c_state = Num 0, c_coarse = Num 0, c_fine = Num 0, c_loopstart = Num 0,
     c_loopend = Num 0, c_loopstate = Num 0, c_warping = Num 0, c_length = Num 0\<rparr>"

definition Clip :: "ref \<Rightarrow> jsval \<Rightarrow> world \<Rightarrow> ref \<times> world" where
  "Clip track clip_id w =
     (let r = clipN w;
          w1 = w\<lparr>clipH := (clipH w)(r := new_clip track clip_id), clipN := Suc r\<rparr>
      in (r, w1\<lparr>subs := subs w1 @ clip_subs r\<rparr>))"

text \<open>The clip's \<open>destroy\<close>: one \<open>removeListener\<close> for each subscription.\<close>

definition Clip_destroy :: "ref \<Rightarrow> world \<Rightarrow> world" where
  "Clip_destroy r w =
     (let w1 = emit (ClipSink r) (Plain (Str ''destroy'')) None w;
          w2 = removeListener ''/live/clip/loopstart'' (ClipL r C_loopstart) w1;
          w3 = removeListener ''/live/clip/loopend'' (ClipL r C_loopend) w2;
          w4 = removeListener ''/live/clip/loopstate'' (ClipL r C_loopstate) w3;
          w5 = removeListener ''/live/clip/warping'' (ClipL r C_warping) w4;
          w6 = removeListener ''/live/pitch'' (ClipL r C_pitch) w5;
          w7 = removeListener ''/live/clip/info'' (ClipL r C_clipinfo) w6
      in removeListener ''/live/name/clip'' (ClipL r C_clipname) w7)"

definition Clip_play :: "ref \<Rightarrow> world \<Rightarrow> world" where
  "Clip_play r w = send ''/live/play/clipslot'' (clip_path r w) w"

definition Clip_stop :: "ref \<Rightarrow> world \<Rightarrow> world" where
  "Clip_stop r w = send ''/live/stop/clip'' (clip_path r w) w"

definition Clip_setName :: "ref \<Rightarrow> jsval \<Rightarrow> world \<Rightarrow> world" where
  "Clip_setName r name w = send ''/live/name/clip'' (clip_path r w @ [Typed ''string'' name]) w"

text \<open>\<open>Clip.prototype.setPitch\<close> returns at once on a track that is not audio.\<close>

definition Clip_setPitch :: "ref \<Rightarrow> jsval \<Rightarrow> jsval \<Rightarrow> world \<Rightarrow> world" where
  "Clip_setPitch r coarse fine w =
     (if \<not> truthy (t_audio (trackH w (c_track (clipH w r)))) then w
      else send ''/live/pitch''
             (clip_path r w @ [Typed ''integer'' coarse, Typed ''integer'' (or_zero fine)]) w)"

definition Clip_setLoopstart :: "ref \<Rightarrow> jsval \<Rightarrow> world \<Rightarrow> world" where
  "Clip_setLoopstart r loopstart w =
     send ''/live/clip/loopstart'' (clip_path r w @ [Typed ''integer'' loopstart]) w"

definition Clip_setLoopend :: "ref \<Rightarrow> jsval \<Rightarrow> world \<Rightarrow> world" where
  "Clip_setLoopend r loopend w =
     send ''/live/clip/loopend'' (clip_path r w @ [Typed ''integer'' loopend]) w"

definition Clip_setLoopstate :: "ref \<Rightarrow> jsval \<Rightarrow> world \<Rightarrow> world" where
  "Clip_setLoopstate r loopstate w =
     send ''/live/clip/loopstate'' (clip_path r w @ [Typed ''integer'' loopstate]) w"

definition Clip_setWarping :: "ref \<Rightarrow> jsval \<Rightarrow> world \<Rightarrow> world" where
  "Clip_setWarping r warping w =
     send ''/live/clip/warping'' (clip_path r w @ [Typed ''integer'' warping]) w"

definition Clip_view :: "ref \<Rightarrow> world \<Rightarrow> world" where
  "Clip_view r w = send ''/live/clip/view'' [Typed ''integer'' (c_id (clipH w r))] w"

section \<open>Track\<close>

definition Track_emitEvent :: "ref \<Rightarrow> jsval \<Rightarrow> payload option \<Rightarrow> world \<Rightarrow> world" where
  "Track_emitEvent r ev params w =
     emit SongSink (Prefixed ''track:'' ev)
       (Some ([(''id'', t_id (trackH w r))] @ (case params of None \<Rightarrow> [] | Some ps \<Rightarrow> ps)))
       (emit (TrackSink r) (Plain ev) params w)"

text \<open>One round of the loop of the track's \<open>sendListener\<close>.\<close>

definition Track_send_step :: "ref \<Rightarrow> jsval \<Rightarrow> jsval \<Rightarrow> world \<Rightarrow> world" where
  "Track_send_step r sendNum sendVal w =
     (let w1 = Track_emitEvent r (Str ''send'')
                 (Some [(''num'', sendNum), (''value'', sendVal),
                        (''prev'', t_sends (trackH w r) sendNum)]) w
      in upd_track r (\<lambda>t. t\<lparr>t_sends := (t_sends t)(sendNum := sendVal)\<rparr>) w1)"

fun Track_send_loop :: "ref \<Rightarrow> jsval list \<Rightarrow> world \<Rightarrow> world" where
  "Track_send_loop r [] w = w"
| "Track_send_loop r [n] w = Track_send_step r n Undef w"
| "Track_send_loop r (n # v # rest) w = Track_send_loop r rest (Track_send_step r n v w)"

definition Track_sendListener :: "ref \<Rightarrow> jsval list \<Rightarrow> world \<Rightarrow> world" where
  "Track_sendListener r args w =
     (if loose_ne (arg args 0) (t_id (trackH w r)) then w
      else Track_send_loop r (tl args) w)"

definition Track_soloListener :: "ref \<Rightarrow> jsval list \<Rightarrow> world \<Rightarrow> world" where
  "Track_soloListener r args w =
     (if loose_ne (arg args 0) (t_id (trackH w r)) then w
      else let solo = arg args 1;
               w1 = Track_emitEvent r (Str ''solo'')
                      (Some [(''value'', solo), (''prev'', t_solo (trackH w r))]) w
           in upd_track r (\<lambda>t. t\<lparr>t_solo := solo\<rparr>) w1)"

definition Track_armListener :: "ref \<Rightarrow> jsval list \<Rightarrow> world \<Rightarrow> world" where
  "Track_armListener r args w =
     (if loose_ne (arg args 0) (t_id (trackH w r)) then w
      else let arm = arg args 1;
               w1 = Track_emitEvent r (Str ''arm'')
                      (Some [(''value'', arm), (''prev'', t_arm (trackH w r))]) w
           in upd_track r (\<lambda>t. t\<lparr>t_arm := arm\<rparr>) w1)"

definition Track_muteListener :: "ref \<Rightarrow> jsval list \<Rightarrow> world \<Rightarrow> world" where
  "Track_muteListener r args w =
     (if loose_ne (arg args 0) (t_id (trackH w r)) then w
      else let mute = arg args 1;
               w1 = Track_emitEvent r (Str ''mute'')
                      (Some [(''value'', mute), (''prev'', t_mute (trackH w r))]) w
           in upd_track r (\<lambda>t. t\<lparr>t_mute := mute\<rparr>) w1)"

definition Track_volumeListener :: "ref \<Rightarrow> jsval list \<Rightarrow> world \<Rightarrow> world" where
  "Track_volumeListener r args w =
     (if loose_ne (arg args 0) (t_id (trackH w r)) then w
      else let volume = arg args 1;
               w1 = Track_emitEvent r (Str ''volume'')
                      (Some [(''value'', volume), (''prev'', t_volume (trackH w r))]) w
           in upd_track r (\<lambda>t. t\<lparr>t_volume := volume\<rparr>) w1)"

definition Track_panListener :: "ref \<Rightarrow> jsval list \<Rightarrow> world \<Rightarrow> world" where
  "Track_panListener r args w =
     (if loose_ne (arg args 0) (t_id (trackH w r)) then w
      else let pan = arg args 1;
               w1 = Track_emitEvent r (Str ''pan'')
                      (Some [(''value'', pan), (''prev'', t_pan (trackH w r))]) w
           in upd_track r (\<lambda>t. t\<lparr>t_pan := pan\<rparr>) w1)"

definition Track_setNumScenes :: "ref \<Rightarrow> jsval \<Rightarrow> world \<Rightarrow> world" where
  "Track_setNumScenes r numScenes w = upd_track r (\<lambda>t. t\<lparr>t_numScenes := numScenes\<rparr>) w"

text \<open>
  \<open>a[i] = v\<close> in a loop that counts \<open>i\<close> up from 0: the index is never
  beyond the length.
\<close>

definition array_set :: "'a list \<Rightarrow> nat \<Rightarrow> 'a \<Rightarrow> 'a list" where
  "array_set xs i v = (if i < length xs then xs[i := v] else xs @ [v])"

text \<open>One round of the loop of \<open>refreshClips\<close>.\<close>

definition refreshClips_step :: "ref \<Rightarrow> nat \<Rightarrow> world \<Rightarrow> world" where
  "refreshClips_step r i w =
     (let (c, w1) = Clip r (Num (of_nat i)) w;
          w2 = upd_track r (\<lambda>t. t\<lparr>t_clips := array_set (t_clips t) i c\<rparr>) w1
      in send ''/live/clip/info''
           [Typed ''integer'' (t_id (trackH w2 r)), Typed ''integer'' (Num (of_nat i))] w2)"

definition Track_refreshClips :: "ref \<Rightarrow> world \<Rightarrow> world" where
  "Track_refreshClips r w =
     (let w1 = fold Clip_destroy (t_clips (trackH w r)) w;
          w2 = upd_track r (\<lambda>t. t\<lparr>t_clips := []\<rparr>) w1
      in fold (refreshClips_step r) [0 ..< rounds (t_numScenes (trackH w2 r))] w2)"

text \<open>
  \<open>trackinfoListener\<close> stores \<open>arm\<close>, \<open>solo\<close>, \<open>mute\<close> and
  \<open>audio\<close> on the track, and \<open>volume\<close> and \<open>pan\<close> on
  \<open>this\<close>, before it emits.
\<close>

definition Track_trackinfoListener :: "ref \<Rightarrow> jsval list \<Rightarrow> world \<Rightarrow> world" where
  "Track_trackinfoListener r args w =
     (if loose_ne (arg args 0) (t_id (trackH w r)) then w
      else let arm = arg args 1; solo = arg args 2; mute = arg args 3; audio = arg args 4;
               volume = arg args 5; pan = arg args 6;
               w1 = upd_track r (\<lambda>t. t\<lparr>t_arm := arm, t_solo := solo, t_mute := mute,
                                        t_audio := audio\<rparr>) w;
               w2 = w1\<lparr>rcv_volume := volume, rcv_pan := pan\<rparr>;
               w3 = Track_emitEvent r (Str ''arm'')
                      (Some [(''value'', arm), (''prev'', t_arm (trackH w2 r))]) w2;
               w4 = Track_emitEvent r (Str ''solo'')
                      (Some [(''value'', solo), (''prev'', t_solo (trackH w3 r))]) w3;
               w5 = Track_emitEvent r (Str ''mute'')
                      (Some [(''value'', mute), (''prev'', t_mute (trackH w4 r))]) w4;
               w6 = Track_emitEvent r (Str ''volume'')
                      (Some [(''value'', volume), (''prev'', t_volume (trackH w5 r))]) w5;
               w7 = Track_emitEvent r (Str ''pan'')
                      (Some [(''value'', pan), (''prev'', t_pan (trackH w6 r))]) w6
           in Track_refreshClips r w7)"

text \<open>
  The loop of the three \<open>devicelistListener\<close>s: a new device for each pair of id
  and name, pushed on the owner's \<open>devices\<close>.
\<close>

fun push_device :: "owner \<Rightarrow> ref \<Rightarrow> world \<Rightarrow> world" where
  "push_device (TrackObj r) d w = upd_track r (\<lambda>t. t\<lparr>t_devices := t_devices t @ [d]\<rparr>) w"
| "push_device (ReturnObj r) d w = upd_return r (\<lambda>t. t\<lparr>r_devices := r_devices t @ [d]\<rparr>) w"
| "push_device SongObj d w = upd_song (\<lambda>s. s\<lparr>s_devices := s_devices s @ [d]\<rparr>) w"

definition devicelist_step :: "owner \<Rightarrow> string \<Rightarrow> jsval \<Rightarrow> jsval \<Rightarrow> world \<Rightarrow> world" where
  "devicelist_step ow type deviceId deviceName w =
     (let (d, w1) = Device deviceId ow type deviceName w in push_device ow d w1)"

fun devicelist_loop :: "owner \<Rightarrow> string \<Rightarrow> jsval list \<Rightarrow> world \<Rightarrow> world" where
  "devicelist_loop ow type [] w = w"
| "devicelist_loop ow type [i] w = devicelist_step ow type i Undef w"
| "devicelist_loop ow type (i # n # rest) w =
     devicelist_loop ow type rest (devicelist_step ow type i n w)"

text \<open>
  The track's \<open>devicelistListener\<close> destroys and clears \<open>this.devices\<close>,
  the receiver's, and pushes on \<open>self.devices\<close>, the track's.
\<close>

definition Track_devicelistListener :: "ref \<Rightarrow> jsval list \<Rightarrow> world \<Rightarrow> world" where
  "Track_devicelistListener r args w =
     (if loose_ne (arg args 0) (t_id (trackH w r)) then w
      else let w1 = fold Device_destroy (case rcv_devices w of None \<Rightarrow> [] | Some ds \<Rightarrow> ds) w;
               w2 = w1\<lparr>rcv_devices := Some []\<rparr>
           in devicelist_loop (TrackObj r) ''track'' (tl args) w2)"

definition Track_nameListener :: "ref \<Rightarrow> jsval list \<Rightarrow> world \<Rightarrow> world" where
  "Track_nameListener r args w =
     (if loose_ne (arg args 0) (t_id (trackH w r)) then w
      else let name = arg args 1;
               w1 = Track_emitEvent r (Str ''name'')
                      (Some [(''value'', name), (''prev'', t_name (trackH w r))]) w;
               w2 = upd_track r (\<lambda>t. t\<lparr>t_name := name\<rparr>) w1;
               w3 = send ''/live/scenes'' [] w2;
               w4 = fold Device_destroy (t_devices (trackH w3 r)) w3;
               w5 = upd_track r (\<lambda>t. t\<lparr>t_devices := []\<rparr>) w4;
               w6 = send ''/live/track/info'' [Typed ''integer'' (t_id (trackH w5 r))] w5
           in send ''/live/devicelist'' [Typed ''integer'' (t_id (trackH w6 r))] w6)"

definition track_subs :: "ref \<Rightarrow> (string \<times> listener) list" where
  "track_subs r =
     [(''/live/send'', TrackL r T_send),
      (''/live/solo'', TrackL r T_solo),
      (''/live/arm'', TrackL r T_arm),
      (''/live/mute'', TrackL r T_mute),
      (''/live/pan'', TrackL r T_pan),
      (''/live/volume'', TrackL r T_volume),
      (''/live/track/info'', TrackL r T_trackinfo),
      (''/live/devicelist'', TrackL r T_devicelist),
      (''/live/name/track'', TrackL r T_name)]"

text \<open>\<open>new Track(liveosc, id)\<close>\<close>

text \<open>The fields of a new track.\<close>

definition new_track :: "jsval \<Rightarrow> track" where
  "new_track track_id = \<lparr>t_id = track_id, t_name = Str '''', t_clips = [],
     t_sends = (\<lambda>k. Undef), t_devices = [], t_audio = Num 0, t_solo = Num 0,
     t_mute = Num 0, t_arm = Num 0, t_volume = Num 0, t_pan = Num 0, t_numScenes = Num 0\<rparr>"

definition Track :: "jsval \<Rightarrow> world \<Rightarrow> ref \<times> world" where
  "Track track_id w =
     (let r = trackN w;
          w1 = w\<lparr>trackH := (trackH w)(r := new_track track_id), trackN := Suc r\<rparr>;
          w2 = w1\<lparr>subs := subs w1 @ track_subs r\<rparr>;
          w3 = send ''/live/name/track'' [Typed ''integer'' track_id] w2
      in (r, send ''/live/send'' [Typed ''integer'' track_id] w3))"

definition Track_destroy :: "ref \<Rightarrow> world \<Rightarrow> world" where
  "Track_destroy r w =
     (let w1 = emit (TrackSink r) (Plain (Str ''destroy'')) None w;
          w2 = removeListener ''/live/send'' (TrackL r T_send) w1;
          w3 = removeListener ''/live/solo'' (TrackL r T_solo) w2;
          w4 = removeListener ''/live/arm'' (TrackL r T_arm) w3;
          w5 = removeListener ''/live/mute'' (TrackL r T_mute) w4;
          w6 = removeListener ''/live/pan'' (TrackL r T_pan) w5;
          w7 = removeListener ''/live/volume'' (TrackL r T_volume) w6;
          w8 = removeListener ''/live/track/info'' (TrackL r T_trackinfo) w7;
          w9 = removeListener ''/live/devicelist'' (TrackL r T_devicelist) w8;
          w10 = removeListener ''/live/name/track'' (TrackL r T_name) w9;
          w11 = fold Clip_destroy (t_clips (trackH w10 r)) w10;
          w12 = upd_track r (\<lambda>t. t\<lparr>t_clips := []\<rparr>) w11;
          w13 = fold Device_destroy (t_devices (trackH w12 r)) w12
      in upd_track r (\<lambda>t. t\<lparr>t_devices := []\<rparr>) w13)"

definition Track_setName :: "ref \<Rightarrow> jsval \<Rightarrow> world \<Rightarrow> world" where
  "Track_setName r name w =
     send ''/live/name/track'' [Typed ''integer'' (t_id (trackH w r)), Typed ''string'' name] w"

definition Track_setArm :: "ref \<Rightarrow> jsval \<Rightarrow> world \<Rightarrow> world" where
  "Track_setArm r arm w =
     send ''/live/arm'' [Typed ''integer'' (t_id (trackH w r)), Typed ''integer'' arm] w"

definition Track_setSolo :: "ref \<Rightarrow> jsval \<Rightarrow> world \<Rightarrow> world" where
  "Track_setSolo r solo w =
     send ''/live/solo'' [Typed ''integer'' (t_id (trackH w r)), Typed ''integer'' solo] w"

definition Track_setMute :: "ref \<Rightarrow> jsval \<Rightarrow> world \<Rightarrow> world" where
  "Track_setMute r mute w =
     send ''/live/mute'' [Typed ''integer'' (t_id (trackH w r)), Typed ''integer'' mute] w"

definition Track_setVolume :: "ref \<Rightarrow> jsval \<Rightarrow> world \<Rightarrow> world" where
  "Track_setVolume r volume w =
     send ''/live/volume'' [Typed ''integer'' (t_id (trackH w r)), Typed ''float'' volume] w"

definition Track_setPan :: "ref \<Rightarrow> jsval \<Rightarrow> world \<Rightarrow> world" where
  "Track_setPan r pan w =
     send ''/live/pan'' [Typed ''integer'' (t_id (trackH w r)), Typed ''float'' pan] w"

definition Track_setSend :: "ref \<Rightarrow> jsval \<Rightarrow> jsval \<Rightarrow> world \<Rightarrow> world" where
  "Track_setSend r snd_id val w =
     send ''/live/send''
       [Typed ''integer'' (t_id (trackH w r)), Typed ''integer'' snd_id, Typed ''float'' val] w"

definition Track_view :: "ref \<Rightarrow> world \<Rightarrow> world" where
  "Track_view r w = send ''/live/track/view'' [Typed ''integer'' (t_id (trackH w r))] w"

section \<open>Return\<close>

definition Return_emitEvent :: "ref \<Rightarrow> jsval \<Rightarrow> payload option \<Rightarrow> world \<Rightarrow> world" where
  "Return_emitEvent r ev params w =
     emit SongSink (Prefixed ''return:'' ev)
       (Some ([(''id'', r_id (returnH w r))] @ (case params of None \<Rightarrow> [] | Some ps \<Rightarrow> ps)))
       (emit (ReturnSink r) (Plain ev) params w)"

definition Return_send_step :: "ref \<Rightarrow> jsval \<Rightarrow> jsval \<Rightarrow> world \<Rightarrow> world" where
  "Return_send_step r sendNum sendVal w =
     (let w1 = Return_emitEvent r (Str ''send'')
                 (Some [(''num'', sendNum), (''value'', sendVal),
                        (''prev'', r_sends (returnH w r) sendNum)]) w
      in upd_return r (\<lambda>t. t\<lparr>r_sends := (r_sends t)(sendNum := sendVal)\<rparr>) w1)"

fun Return_send_loop :: "ref \<Rightarrow> jsval list \<Rightarrow> world \<Rightarrow> world" where
  "Return_send_loop r [] w = w"
| "Return_send_loop r [n] w = Return_send_step r n Undef w"
| "Return_send_loop r (n # v # rest) w = Return_send_loop r rest (Return_send_step r n v w)"

definition Return_sendListener :: "ref \<Rightarrow> jsval list \<Rightarrow> world \<Rightarrow> world" where
  "Return_sendListener r args w =
     (if loose_ne (arg args 0) (r_id (returnH w r)) then w
      else Return_send_loop r (tl args) w)"

definition Return_soloListener :: "ref \<Rightarrow> jsval list \<Rightarrow> world \<Rightarrow> world" where
  "Return_soloListener r args w =
     (if loose_ne (arg args 0) (r_id (returnH w r)) then w
      else let solo = arg args 1;
               w1 = Return_emitEvent r (Str ''solo'')
                      (Some [(''value'', solo), (''prev'', r_solo (returnH w r))]) w
           in upd_return r (\<lambda>t. t\<lparr>r_solo := solo\<rparr>) w1)"

definition Return_muteListener :: "ref \<Rightarrow> jsval list \<Rightarrow> world \<Rightarrow> world" where
  "Return_muteListener r args w =
     (if loose_ne (arg args 0) (r_id (returnH w r)) then w
      else let mute = arg args 1;
               w1 = Return_emitEvent r (Str ''mute'')
                      (Some [(''value'', mute), (''prev'', r_mute (returnH w r))]) w
           in upd_return r (\<lambda>t. t\<lparr>r_mute := mute\<rparr>) w1)"

text \<open>
  The return's \<open>volumeListener\<close> and \<open>panListener\<close> store the value and
  then emit, reading \<open>prev\<close> from the field they have just stored.
\<close>

definition Return_volumeListener :: "ref \<Rightarrow> jsval list \<Rightarrow> world \<Rightarrow> world" where
  "Return_volumeListener r args w =
     (if loose_ne (arg args 0) (r_id (returnH w r)) then w
      else let volume = arg args 1;
               w1 = upd_return r (\<lambda>t. t\<lparr>r_volume := volume\<rparr>) w
           in Return_emitEvent r (Str ''volume'')
                (Some [(''value'', volume), (''prev'', r_volume (returnH w1 r))]) w1)"

definition Return_panListener :: "ref \<Rightarrow> jsval list \<Rightarrow> world \<Rightarrow> world" where
  "Return_panListener r args w =
     (if loose_ne (arg args 0) (r_id (returnH w r)) then w
      else let pan = arg args 1;
               w1 = upd_return r (\<lambda>t. t\<lparr>r_pan := pan\<rparr>) w
           in Return_emitEvent r (Str ''pan'')
                (Some [(''value'', pan), (''prev'', r_pan (returnH w1 r))]) w1)"

definition Return_infoListener :: "ref \<Rightarrow> jsval list \<Rightarrow> world \<Rightarrow> world" where
  "Return_infoListener r args w =
     (if loose_ne (arg args 0) (r_id (returnH w r)) then w
      else let solo = arg args 1; mute = arg args 2; volume = arg args 3; pan = arg args 4;
               w1 = upd_return r (\<lambda>t. t\<lparr>r_solo := solo, r_mute := mute\<rparr>) w;
               w2 = w1\<lparr>rcv_volume := volume, rcv_pan := pan\<rparr>;
               w3 = Return_emitEvent r (Str ''solo'')
                      (Some [(''value'', solo), (''prev'', r_solo (returnH w2 r))]) w2;
               w4 = Return_emitEvent r (Str ''mute'')
                      (Some [(''value'', mute), (''prev'', r_mute (returnH w3 r))]) w3;
               w5 = Return_emitEvent r (Str ''volume'')
                      (Some [(''value'', volume), (''prev'', r_volume (returnH w4 r))]) w4
           in Return_emitEvent r (Str ''pan'')
                (Some [(''value'', pan), (''prev'', r_pan (returnH w5 r))]) w5)"

text \<open>The return's \<open>devicelistListener\<close> only pushes.\<close>

definition Return_devicelistListener :: "ref \<Rightarrow> jsval list \<Rightarrow> world \<Rightarrow> world" where
  "Return_devicelistListener r args w =
     (if loose_ne (arg args 0) (r_id (returnH w r)) then w
      else devicelist_loop (ReturnObj r) ''return'' (tl args) w)"

definition Return_nameListener :: "ref \<Rightarrow> jsval list \<Rightarrow> world \<Rightarrow> world" where
  "Return_nameListener r args w =
     (if loose_ne (arg args 0) (r_id (returnH w r)) then w
      else let name = arg args 1;
               w1 = Return_emitEvent r (Str ''name'')
                      (Some [(''value'', name), (''prev'', r_name (returnH w r))]) w;
               w2 = upd_return r (\<lambda>t. t\<lparr>r_name := name\<rparr>) w1;
               w3 = send ''/live/scenes'' [] w2;
               w4 = fold Device_destroy (r_devices (returnH w3 r)) w3;
               w5 = upd_return r (\<lambda>t. t\<lparr>r_devices := []\<rparr>) w4;
               w6 = send ''/live/return/info'' [Typed ''integer'' (r_id (returnH w5 r))] w5
           in send ''/live/return/devicelist'' [Typed ''integer'' (r_id (returnH w6 r))] w6)"

definition return_subs :: "ref \<Rightarrow> (string \<times> listener) list" where
  "return_subs r =
     [(''/live/return/send'', ReturnL r R_send),
      (''/live/return/solo'', ReturnL r R_solo),
      (''/live/return/mute'', ReturnL r R_mute),
      (''/live/return/volume'', ReturnL r R_volume),
      (''/live/return/pan'', ReturnL r R_pan),
      (''/live/return/info'', ReturnL r R_info),
      (''/live/return/devicelist'', ReturnL r R_devicelist),
      (''/live/name/return'', ReturnL r R_name)]"

text \<open>\<open>new Return(liveosc, id)\<close>\<close>

text \<open>The fields of a new return.\<close>

definition new_return :: "jsval \<Rightarrow> return" where
  "new_return return_id = \<lparr>r_name = Str '''', r_id = return_id,
     r_solo = Num 0, r_mute = Num 0, r_volume = Num 0, r_pan = Num 0,
     r_devices = [], r_sends = (\<lambda>k. Undef)\<rparr>"

definition Return :: "jsval \<Rightarrow> world \<Rightarrow> ref \<times> world" where
  "Return return_id w =
     (let r = returnN w;
          w1 = w\<lparr>returnH := (returnH w)(r := new_return return_id), returnN := Suc r\<rparr>;
          w2 = w1\<lparr>subs := subs w1 @ return_subs r\<rparr>;
          w3 = send ''/live/return/send'' [Typed ''integer'' return_id] w2
      in (r, send ''/live/name/return'' [Typed ''integer'' return_id] w3))"

text \<open>
  The return's \<open>destroy\<close> removes the device list listener from the address
  \<open>/live/return/devlicelist\<close>, as the source spells it.
\<close>

definition Return_destroy :: "ref \<Rightarrow> world \<Rightarrow> world" where
  "Return_destroy r w =
     (let w1 = emit (ReturnSink r) (Plain (Str ''destroy'')) None w;
          w2 = removeListener ''/live/return/send'' (ReturnL r R_send) w1;
          w3 = removeListener ''/live/return/solo'' (ReturnL r R_solo) w2;
          w4 = removeListener ''/live/return/mute'' (ReturnL r R_mute) w3;
          w5 = removeListener ''/live/return/volume'' (ReturnL r R_volume) w4;
          w6 = removeListener ''/live/return/pan'' (ReturnL r R_pan) w5;
          w7 = removeListener ''/live/return/info'' (ReturnL r R_info) w6;
          w8 = removeListener ''/live/return/devlicelist'' (ReturnL r R_devicelist) w7;
          w9 = removeListener ''/live/name/return'' (ReturnL r R_name) w8;
          w10 = fold Device_destroy (r_devices (returnH w9 r)) w9
      in upd_return r (\<lambda>t. t\<lparr>r_devices := []\<rparr>) w10)"

definition Return_setName :: "ref \<Rightarrow> jsval \<Rightarrow> world \<Rightarrow> world" where
  "Return_setName r name w =
     send ''/live/name/return'' [Typed ''integer'' (r_id (returnH w r)), Typed ''string'' name] w"

definition Return_setSolo :: "ref \<Rightarrow> jsval \<Rightarrow> world \<Rightarrow> world" where
  "Return_setSolo r solo w =
     send ''/live/return/solo'' [Typed ''integer'' (r_id (returnH w r)), Typed ''integer'' solo] w"

definition Return_setMute :: "ref \<Rightarrow> jsval \<Rightarrow> world \<Rightarrow> world" where
  "Return_setMute r mute w =
     send ''/live/return/mute'' [Typed ''integer'' (r_id (returnH w r)), Typed ''integer'' mute] w"

definition Return_setVolume :: "ref \<Rightarrow> jsval \<Rightarrow> world \<Rightarrow> world" where
  "Return_setVolume r volume w =
     send ''/live/return/volume''
       [Typed ''integer'' (r_id (returnH w r)), Typed ''float'' volume] w"

definition Return_setPan :: "ref \<Rightarrow> jsval \<Rightarrow> world \<Rightarrow> world" where
  "Return_setPan r pan w =
     send ''/live/return/pan'' [Typed ''integer'' (r_id (returnH w r)), Typed ''float'' pan] w"

definition Return_setSend :: "ref \<Rightarrow> jsval \<Rightarrow> jsval \<Rightarrow> world \<Rightarrow> world" where
  "Return_setSend r snd_id val w =
     send ''/live/return/send''
       [Typed ''integer'' (r_id (returnH w r)), Typed ''integer'' snd_id, Typed ''float'' val] w"

definition Return_view :: "ref \<Rightarrow> world \<Rightarrow> world" where
  "Return_view r w = send ''/live/return/view'' [Typed ''integer'' (r_id (returnH w r))] w"

section \<open>Song\<close>

definition song_listener :: "string \<Rightarrow> (song \<Rightarrow> jsval) \<Rightarrow> (jsval \<Rightarrow> song \<Rightarrow> song)
    \<Rightarrow> jsval list \<Rightarrow> world \<Rightarrow> world" where
  "song_listener name get put args w =
     (let v = arg args 0;
          w1 = emit SongSink (Plain (Str name)) (Some [(''value'', v), (''prev'', get (w_song w))]) w
      in upd_song (put v) w1)"

definition Song_playListener :: "jsval list \<Rightarrow> world \<Rightarrow> world" where
  "Song_playListener = song_listener ''play'' s_playing (\<lambda>v s. s\<lparr>s_playing := v\<rparr>)"

definition Song_beatListener :: "jsval list \<Rightarrow> world \<Rightarrow> world" where
  "Song_beatListener = song_listener ''beat'' s_beat (\<lambda>v s. s\<lparr>s_beat := v\<rparr>)"

definition Song_tempoListener :: "jsval list \<Rightarrow> world \<Rightarrow> world" where
  "Song_tempoListener = song_listener ''tempo'' s_tempo (\<lambda>v s. s\<lparr>s_tempo := v\<rparr>)"

definition Song_sceneListener :: "jsval list \<Rightarrow> world \<Rightarrow> world" where
  "Song_sceneListener = song_listener ''scene'' s_scene (\<lambda>v s. s\<lparr>s_scene := v\<rparr>)"

definition Song_volumeListener :: "jsval list \<Rightarrow> world \<Rightarrow> world" where
  "Song_volumeListener = song_listener ''volume'' s_volume (\<lambda>v s. s\<lparr>s_volume := v\<rparr>)"

definition Song_panListener :: "jsval list \<Rightarrow> world \<Rightarrow> world" where
  "Song_panListener = song_listener ''pan'' s_pan (\<lambda>v s. s\<lparr>s_pan := v\<rparr>)"

text \<open>
  \<open>tracksListener\<close> and \<open>returnsListener\<close> assign the new object to its
  slot and do nothing about an object that is already there.
\<close>

definition tracks_step :: "nat \<Rightarrow> world \<Rightarrow> world" where
  "tracks_step i w =
     (let (t, w1) = Track (Num (of_nat i)) w
      in upd_song (\<lambda>s. s\<lparr>s_tracks := array_set (s_tracks s) i t\<rparr>) w1)"

definition Song_tracksListener :: "jsval list \<Rightarrow> world \<Rightarrow> world" where
  "Song_tracksListener args w =
     send ''/live/scenes'' [] (fold tracks_step [0 ..< rounds (arg args 0)] w)"

definition returns_step :: "nat \<Rightarrow> world \<Rightarrow> world" where
  "returns_step i w =
     (let (t, w1) = Return (Num (of_nat i)) w
      in upd_song (\<lambda>s. s\<lparr>s_returns := array_set (s_returns s) i t\<rparr>) w1)"

definition Song_returnsListener :: "jsval list \<Rightarrow> world \<Rightarrow> world" where
  "Song_returnsListener args w = fold returns_step [0 ..< rounds (arg args 0)] w"

definition Song_scenesListener :: "jsval list \<Rightarrow> world \<Rightarrow> world" where
  "Song_scenesListener args w =
     fold (\<lambda>t w'. Track_refreshClips t (Track_setNumScenes t (arg args 0) w'))
       (s_tracks (w_song w)) w"

definition Song_devicelistListener :: "jsval list \<Rightarrow> world \<Rightarrow> world" where
  "Song_devicelistListener args w = devicelist_loop SongObj ''master'' args w"

text \<open>
  \<open>Song.prototype.refresh\<close>. The \<open>/live/time\<close> request is left to a timer.
\<close>

definition Song_refresh :: "world \<Rightarrow> world" where
  "Song_refresh w =
     (let w1 = emit SongSink (Plain (Str ''refresh'')) None w;
          w2 = fold Track_destroy (s_tracks (w_song w1)) w1;
          w3 = upd_song (\<lambda>s. s\<lparr>s_tracks := []\<rparr>) w2;
          w4 = fold Return_destroy (s_returns (w_song w3)) w3;
          w5 = upd_song (\<lambda>s. s\<lparr>s_returns := []\<rparr>) w4;
          w6 = fold Device_destroy (s_devices (w_song w5)) w5;
          w7 = upd_song (\<lambda>s. s\<lparr>s_devices := []\<rparr>) w6;
          w8 = send ''/live/tracks'' [] w7;
          w9 = send ''/live/returns'' [] w8;
          w10 = send ''/live/master/volume'' [] w9;
          w11 = send ''/live/master/pan'' [] w10;
          w12 = send ''/live/tempo'' [] w11;
          w13 = send ''/live/master/devicelist'' [] w12
      in w13\<lparr>timers := Suc (timers w13)\<rparr>)"

definition Song_timeListener :: "jsval list \<Rightarrow> world \<Rightarrow> world" where
  "Song_timeListener args w = emit SongSink (Plain (Str ''ready'')) None w"

definition song_subs :: "(string \<times> listener) list" where
  "song_subs =
     [(''/live/play'', SongL S_play),
      (''/live/beat'', SongL S_beat),
      (''/live/tempo'', SongL S_tempo),
      (''/live/scene'', SongL S_scene),
      (''/live/master/volume'', SongL S_volume),
      (''/live/master/pan'', SongL S_pan),
      (''/live/tracks'', SongL S_tracks),
      (''/live/returns'', SongL S_returns),
      (''/live/scenes'', SongL S_scenes),
      (''/live/master/devicelist'', SongL S_devicelist),
      (''/remix/oscserver/startup'', SongL S_refresh),
      (''/remix/oscserver/shutdown'', SongL S_refresh),
      (''/live/refresh'', SongL S_refresh),
      (''/live/time'', SongL S_time)]"

text \<open>The fields of a new song.\<close>

definition new_song :: song where
  "new_song = \<lparr>s_tempo = Num 120, s_tracks = [], s_returns = [], s_devices = [],
     s_volume = Num 0, s_pan = Num 0, s_scene = Num 0, s_beat = Num 0, s_playing = Num 1\<rparr>"

text \<open>\<open>new Song(liveosc)\<close>: its fields, its subscriptions, and a refresh.\<close>

definition Song :: "world \<Rightarrow> world" where
  "Song w =
     (let w1 = w\<lparr>w_song := new_song\<rparr>;
          w2 = w1\<lparr>subs := subs w1 @ song_subs\<rparr>
      in Song_refresh w2)"

definition Song_stop :: "world \<Rightarrow> world" where
  "Song_stop w = send ''/live/stop'' [] w"

definition Song_play :: "world \<Rightarrow> world" where
  "Song_play w = send ''/live/play'' [] w"

definition Song_continue :: "world \<Rightarrow> world" where
  "Song_continue w = send ''/live/play/continue'' [] w"

definition Song_nextCue :: "world \<Rightarrow> world" where
  "Song_nextCue w = send ''/live/next/cue'' [] w"

definition Song_prevCue :: "world \<Rightarrow> world" where
  "Song_prevCue w = send ''/live/prev/cue'' [] w"

definition Song_undo :: "world \<Rightarrow> world" where
  "Song_undo w = send ''/live/undo'' [] w"

definition Song_redo :: "world \<Rightarrow> world" where
  "Song_redo w = send ''/live/redo'' [] w"

definition Song_view :: "world \<Rightarrow> world" where
  "Song_view w = send ''/live/master/view'' [] w"

definition Song_playScene :: "jsval \<Rightarrow> world \<Rightarrow> world" where
  "Song_playScene scene w = send ''/live/scene'' [Typed ''integer'' scene] w"

definition Song_setVolume :: "jsval \<Rightarrow> world \<Rightarrow> world" where
  "Song_setVolume volume w = send ''/live/master/volume'' [Typed ''float'' volume] w"

definition Song_setPan :: "jsval \<Rightarrow> world \<Rightarrow> world" where
  "Song_setPan pan w = send ''/live/master/pan'' [Typed ''float'' pan] w"

definition Song_setTempo :: "jsval \<Rightarrow> world \<Rightarrow> world" where
  "Song_setTempo tempo w = send ''/live/tempo'' [Typed ''float'' tempo] w"

section \<open>The receiver\<close>

text \<open>
  Calling a listener with the arguments of a message: the world the listener leaves, where
  it returns and, for the two that can throw, where it throws.
\<close>

fun run :: "listener \<Rightarrow> jsval list \<Rightarrow> world \<Rightarrow> world" where
  "run (TrackL r T_send) = Track_sendListener r"
| "run (TrackL r T_solo) = Track_soloListener r"
| "run (TrackL r T_arm) = Track_armListener r"
| "run (TrackL r T_mute) = Track_muteListener r"
| "run (TrackL r T_pan) = Track_panListener r"
| "run (TrackL r T_volume) = Track_volumeListener r"
| "run (TrackL r T_trackinfo) = Track_trackinfoListener r"
| "run (TrackL r T_devicelist) = Track_devicelistListener r"
| "run (TrackL r T_name) = Track_nameListener r"
| "run (ReturnL r R_send) = Return_sendListener r"
| "run (ReturnL r R_solo) = Return_soloListener r"
| "run (ReturnL r R_mute) = Return_muteListener r"
| "run (ReturnL r R_volume) = Return_volumeListener r"
| "run (ReturnL r R_pan) = Return_panListener r"
| "run (ReturnL r R_info) = Return_infoListener r"
| "run (ReturnL r R_devicelist) = Return_devicelistListener r"
| "run (ReturnL r R_name) = Return_nameListener r"
| "run (ClipL r C_loopstart) = Clip_loopstartListener r"
| "run (ClipL r C_loopend) = Clip_loopendListener r"
| "run (ClipL r C_loopstate) = Clip_loopstateListener r"
| "run (ClipL r C_warping) = Clip_warpingListener r"
| "run (ClipL r C_pitch) = Clip_pitchListener r"
| "run (ClipL r C_clipinfo) = Clip_clipinfoListener r"
| "run (ClipL r C_clipname) = Clip_clipnameListener r"
| "run (DeviceL r D_range) = Device_rangeListener r"
| "run (DeviceL r D_allParam) = (\<lambda>args w. snd (Device_allParamListener r args w))"
| "run (DeviceL r D_param) = (\<lambda>args w. snd (Device_paramListener r args w))"
| "run (SongL S_play) = Song_playListener"
| "run (SongL S_beat) = Song_beatListener"
| "run (SongL S_tempo) = Song_tempoListener"
| "run (SongL S_scene) = Song_sceneListener"
| "run (SongL S_volume) = Song_volumeListener"
| "run (SongL S_pan) = Song_panListener"
| "run (SongL S_tracks) = Song_tracksListener"
| "run (SongL S_returns) = Song_returnsListener"
| "run (SongL S_scenes) = Song_scenesListener"
| "run (SongL S_devicelist) = Song_devicelistListener"
| "run (SongL S_refresh) = (\<lambda>args. Song_refresh)"
| "run (SongL S_time) = Song_timeListener"

text \<open>
  How the call of a listener ends. The two device listeners that emit an event named
  after a parameter end as \<open>emitEvent\<close> does; every other listener returns.
\<close>

fun outcome :: "listener \<Rightarrow> jsval list \<Rightarrow> world \<Rightarrow> (error + unit) \<times> world" where
  "outcome (DeviceL r D_allParam) args w = Device_allParamListener r args w"
| "outcome (DeviceL r D_param) args w = Device_paramListener r args w"
| "outcome l args w = (Inr (), run l args w)"

text \<open>
  The receiver's \<open>emit\<close> of an inbound message: the listeners registered under
  the address when the message arrives are called in the order of their registration,
  and a listener that throws ends the \<open>emit\<close>, so that the listeners after it
  are not called. \<open>deliver\<close> is the world the \<open>emit\<close> leaves.
\<close>

definition listeners :: "string \<Rightarrow> world \<Rightarrow> listener list" where
  "listeners addr w = map snd (filter (\<lambda>(a, l). a = addr) (subs w))"

fun receive :: "listener list \<Rightarrow> jsval list \<Rightarrow> world \<Rightarrow> (error + unit) \<times> world" where
  "receive [] args w = (Inr (), w)"
| "receive (l # ls) args w =
     (case outcome l args w of
        (Inl e, w') \<Rightarrow> (Inl e, w')
      | (Inr u, w') \<Rightarrow> receive ls args w')"

definition deliver :: "string \<Rightarrow> jsval list \<Rightarrow> world \<Rightarrow> world" where
  "deliver addr args w = snd (receive (listeners addr w) args w)"

text \<open>
  \<open>new LiveOSC()\<close>: no object yet, a receiver without subscriptions, and the song
  constructed.
\<close>

definition no_track :: track where
  "no_track = \<lparr>t_id = Undef, t_name = Undef, t_clips = [], t_sends = (\<lambda>k. Undef),
     t_devices = [], t_audio = Undef, t_solo = Undef, t_mute = Undef, t_arm = Undef,
     t_volume = Undef, t_pan = Undef, t_numScenes = Undef\<rparr>"

definition no_return :: return where
  "no_return = \<lparr>r_name = Undef, r_id = Undef, r_solo = Undef, r_mute = Undef,
     r_volume = Undef, r_pan = Undef, r_devices = [], r_sends = (\<lambda>k. Undef)\<rparr>"

definition no_clip :: clip where
  "no_clip = \<lparr>c_track = 0, c_id = Undef, c_name = Undef, c_state = Undef, c_coarse = Undef,
     c_fine = Undef, c_loopstart = Undef, c_loopend = Undef, c_loopstate = Undef,
     c_warping = Undef, c_length = Undef\<rparr>"

definition no_device :: device where
  "no_device = \<lparr>d_name = Undef, d_id = Undef, d_track = SongObj, d_type = '''', d_params = [],
     d_on = []\<rparr>"

definition no_song :: song where
  "no_song = \<lparr>s_tempo = Undef, s_tracks = [], s_returns = [], s_devices = [],
     s_volume = Undef, s_pan = Undef, s_scene = Undef, s_beat = Undef, s_playing = Undef\<rparr>"

definition blank :: world where
  "blank = \<lparr>w_song = no_song, trackH = (\<lambda>r. no_track), trackN = 0,
     returnH = (\<lambda>r. no_return), returnN = 0, clipH = (\<lambda>r. no_clip), clipN = 0,
     deviceH = (\<lambda>r. no_device), deviceN = 0, subs = [], sent = [], events = [],
     rcv_volume = Undef, rcv_pan = Undef, rcv_devices = None, timers = 0\<rparr>"

definition LiveOSC :: world where
  "LiveOSC = Song blank"

section \<open>Scenarios\<close>

text \<open>The requests of a refresh, in the order they are sent.\<close>

definition refresh_requests :: "message list" where
  "refresh_requests =
     [(''/live/tracks'', []), (''/live/returns'', []), (''/live/master/volume'', []),
      (''/live/master/pan'', []), (''/live/tempo'', []), (''/live/master/devicelist'', [])]"

text \<open>
  The round trip: the remote application answers the requests of the first refresh with
  two tracks, one return, four scenes, a master volume of 0.8 and a tempo of 126.
\<close>

definition replies :: "(string \<times> jsval list) list" where
  "replies =
     [(''/live/tracks'', [Num 2]), (''/live/returns'', [Num 1]), (''/live/scenes'', [Num 4]),
      (''/live/master/volume'', [Num 0.8]), (''/live/tempo'', [Num 126])]"

definition round_trip :: world where
  "round_trip = fold (\<lambda>(a, args). deliver a args) replies LiveOSC"

text \<open>The worlds the round trip passes through.\<close>

definition after_tracks :: world where
  "after_tracks = LiveOSC\<lparr>w_song := (w_song LiveOSC)\<lparr>s_tracks := [0, 1]\<rparr>,
      trackH := (trackH LiveOSC)(0 := new_track (Num 0), 1 := new_track (Num 1)),
      trackN := 2,
      subs := song_subs @ track_subs 0 @ track_subs 1,
      sent := refresh_requests @
         [(''/live/name/track'', [Typed ''integer'' (Num 0)]),
          (''/live/send'', [Typed ''integer'' (Num 0)]),
          (''/live/name/track'', [Typed ''integer'' (Num 1)]),
          (''/live/send'', [Typed ''integer'' (Num 1)]),
          (''/live/scenes'', [])]\<rparr>"

definition after_returns :: world where
  "after_returns = after_tracks\<lparr>w_song := (w_song after_tracks)\<lparr>s_returns := [0]\<rparr>,
      returnH := (returnH after_tracks)(0 := new_return (Num 0)),
      returnN := 1,
      subs := subs after_tracks @ return_subs 0,
      sent := sent after_tracks @
         [(''/live/return/send'', [Typed ''integer'' (Num 0)]),
          (''/live/name/return'', [Typed ''integer'' (Num 0)])]\<rparr>"

definition after_scenes :: world where
  "after_scenes = after_returns\<lparr>
      trackH := (trackH after_returns)
         (0 := (new_track (Num 0))\<lparr>t_clips := [0, 1, 2, 3], t_numScenes := Num 4\<rparr>,
          1 := (new_track (Num 1))\<lparr>t_clips := [4, 5, 6, 7], t_numScenes := Num 4\<rparr>),
      clipH := (clipH after_returns)
         (0 := new_clip 0 (Num 0), 1 := new_clip 0 (Num 1), 2 := new_clip 0 (Num 2),
          3 := new_clip 0 (Num 3), 4 := new_clip 1 (Num 0), 5 := new_clip 1 (Num 1),
          6 := new_clip 1 (Num 2), 7 := new_clip 1 (Num 3)),
      clipN := 8,
      subs := subs after_returns @ clip_subs 0 @ clip_subs 1 @ clip_subs 2 @ clip_subs 3
                @ clip_subs 4 @ clip_subs 5 @ clip_subs 6 @ clip_subs 7,
      sent := sent after_returns @
         [(''/live/clip/info'', [Typed ''integer'' (Num 0), Typed ''integer'' (Num 0)]),
          (''/live/clip/info'', [Typed ''integer'' (Num 0), Typed ''integer'' (Num 1)]),
          (''/live/clip/info'', [Typed ''integer'' (Num 0), Typed ''integer'' (Num 2)]),
          (''/live/clip/info'', [Typed ''integer'' (Num 0), Typed ''integer'' (Num 3)]),
          (''/live/clip/info'', [Typed ''integer'' (Num 1), Typed ''integer'' (Num 0)]),
          (''/live/clip/info'', [Typed ''integer'' (Num 1), Typed ''integer'' (Num 1)]),
          (''/live/clip/info'', [Typed ''integer'' (Num 1), Typed ''integer'' (Num 2)]),
          (''/live/clip/info'', [Typed ''integer'' (Num 1), Typed ''integer'' (Num 3)])]\<rparr>"

text \<open>The listeners registered under an address, from the list of subscriptions.\<close>

definition subs_at :: "string \<Rightarrow> (string \<times> listener) list \<Rightarrow> listener list" where
  "subs_at a xs = map snd (filter (\<lambda>(a', l). a' = a) xs)"

text \<open>A song with one track, and a song with one return.\<close>

definition one_track :: world where
  "one_track = deliver ''/live/tracks'' [Num 1] LiveOSC"

definition one_return :: world where
  "one_return = deliver ''/live/returns'' [Num 1] LiveOSC"

text \<open>The device list of the one track arrives twice.\<close>

definition devicelist_twice :: world where
  "devicelist_twice =
     deliver ''/live/devicelist'' [Num 0, Num 0, Str ''Reverb'']
       (deliver ''/live/devicelist'' [Num 0, Num 0, Str ''Reverb''] one_track)"

text \<open>The info of the one track arrives.\<close>

definition after_trackinfo :: world where
  "after_trackinfo =
     deliver ''/live/track/info'' [Num 0, Num 1, Num 1, Num 1, Num 1, Num 0.5, Num 0.25] one_track"

text \<open>A device with id 3 on the one track, and a device with id 2 on the master track.\<close>

definition one_device :: world where
  "one_device = deliver ''/live/devicelist'' [Num 0, Num 3, Str ''Reverb''] one_track"

definition master_device :: world where
  "master_device = deliver ''/live/master/devicelist'' [Num 2, Str ''Limiter''] LiveOSC"

text \<open>The subscriptions of a device on a track, and of one on the master track.\<close>

definition track_device_subs :: "ref \<Rightarrow> (string \<times> listener) list" where
  "track_device_subs d =
     [(''/live/device/range'', DeviceL d D_range),
      (''/live/device/allparam'', DeviceL d D_allParam),
      (''/live/device/param'', DeviceL d D_param)]"

definition master_device_subs :: "ref \<Rightarrow> (string \<times> listener) list" where
  "master_device_subs d =
     [(''/live/master/device/range'', DeviceL d D_range),
      (''/live/master/device'', DeviceL d D_allParam),
      (''/live/master/device/param'', DeviceL d D_param)]"

text \<open>The parameters of the device on the one track arrive.\<close>

definition tuned :: world where
  "tuned = deliver ''/live/device/allparam''
     [Num 0, Num 3, Num 0, Num 1, Str ''Device On'', Num 1, Num 0.5, Str ''Dry/Wet''] one_device"

text \<open>The address of \<open>Device.prototype.set\<close>.\<close>

definition set_addr :: "string \<Rightarrow> string" where
  "set_addr type = (if type = ''track'' then ''/live/device'' else ''/live/'' @ type @ ''/device'')"

text \<open>The one track learns of one scene, and has one clip.\<close>

definition one_clip :: world where
  "one_clip = deliver ''/live/scenes'' [Num 1] one_track"

section \<open>Identity paths and mutator calls\<close>




text \<open>The calls of the mutator methods, by the class of the object called.\<close>

datatype track_call =
  setName_t jsval | setArm_t jsval | setSolo_t jsval | setMute_t jsval | setVolume_t jsval
  | setPan_t jsval | setSend_t jsval jsval | view_t

datatype return_call =
  setName_r jsval | setSolo_r jsval | setMute_r jsval | setVolume_r jsval | setPan_r jsval
  | setSend_r jsval jsval | view_r

datatype clip_call =
  play_c | stop_c | setName_c jsval | setPitch_c jsval jsval | setLoopstart_c jsval
  | setLoopend_c jsval | setLoopstate_c jsval | setWarping_c jsval | view_c

datatype device_call = set_d jsval jsval | view_d

datatype song_call =
  stop_s | play_s | continue_s | nextCue_s | prevCue_s | undo_s | redo_s | view_s
  | playScene_s jsval | setVolume_s jsval | setPan_s jsval | setTempo_s jsval

datatype call =
  OnTrack ref track_call
  | OnReturn ref return_call
  | OnClip ref clip_call
  | OnDevice ref device_call
  | OnSong song_call

fun invoke_track :: "ref \<Rightarrow> track_call \<Rightarrow> world \<Rightarrow> world" where
  "invoke_track r (setName_t x) = Track_setName r x"
| "invoke_track r (setArm_t x) = Track_setArm r x"
| "invoke_track r (setSolo_t x) = Track_setSolo r x"
| "invoke_track r (setMute_t x) = Track_setMute r x"
| "invoke_track r (setVolume_t x) = Track_setVolume r x"
| "invoke_track r (setPan_t x) = Track_setPan r x"
| "invoke_track r (setSend_t x y) = Track_setSend r x y"
| "invoke_track r view_t = Track_view r"

fun invoke_return :: "ref \<Rightarrow> return_call \<Rightarrow> world \<Rightarrow> world" where
  "invoke_return r (setName_r x) = Return_setName r x"
| "invoke_return r (setSolo_r x) = Return_setSolo r x"
| "invoke_return r (setMute_r x) = Return_setMute r x"
| "invoke_return r (setVolume_r x) = Return_setVolume r x"
| "invoke_return r (setPan_r x) = Return_setPan r x"
| "invoke_return r (setSend_r x y) = Return_setSend r x y"
| "invoke_return r view_r = Return_view r"

fun invoke_clip :: "ref \<Rightarrow> clip_call \<Rightarrow> world \<Rightarrow> world" where
  "invoke_clip r play_c = Clip_play r"
| "invoke_clip r stop_c = Clip_stop r"
| "invoke_clip r (setName_c x) = Clip_setName r x"
| "invoke_clip r (setPitch_c x y) = Clip_setPitch r x y"
| "invoke_clip r (setLoopstart_c x) = Clip_setLoopstart r x"
| "invoke_clip r (setLoopend_c x) = Clip_setLoopend r x"
| "invoke_clip r (setLoopstate_c x) = Clip_setLoopstate r x"
| "invoke_clip r (setWarping_c x) = Clip_setWarping r x"
| "invoke_clip r view_c = Clip_view r"

text \<open>A call of \<open>Device.prototype.set\<close> that throws leaves the world it found.\<close>

fun invoke_device :: "ref \<Rightarrow> device_call \<Rightarrow> world \<Rightarrow> world" where
  "invoke_device r (set_d x y) = (\<lambda>w. snd (Device_set r x y w))"
| "invoke_device r view_d = Device_view r"

fun invoke_song :: "song_call \<Rightarrow> world \<Rightarrow> world" where
  "invoke_song stop_s = Song_stop"
| "invoke_song play_s = Song_play"
| "invoke_song continue_s = Song_continue"
| "invoke_song nextCue_s = Song_nextCue"
| "invoke_song prevCue_s = Song_prevCue"
| "invoke_song undo_s = Song_undo"
| "invoke_song redo_s = Song_redo"
| "invoke_song view_s = Song_view"
| "invoke_song (playScene_s x) = Song_playScene x"
| "invoke_song (setVolume_s x) = Song_setVolume x"
| "invoke_song (setPan_s x) = Song_setPan x"
| "invoke_song (setTempo_s x) = Song_setTempo x"

fun invoke :: "call \<Rightarrow> world \<Rightarrow> world" where
  "invoke (OnTrack r c) = invoke_track r c"
| "invoke (OnReturn r c) = invoke_return r c"
| "invoke (OnClip r c) = invoke_clip r c"
| "invoke (OnDevice r c) = invoke_device r c"
| "invoke (OnSong c) = invoke_song c"

text \<open>
  The two calls that hand nothing to the emitter: a pitch for a clip on a track that is
  not audio, and a device parameter named by a name the table does not resolve.
\<close>

definition silent :: "call \<Rightarrow> world \<Rightarrow> bool" where
  "silent c w =
     (case c of
        OnClip r (setPitch_c x y) \<Rightarrow> \<not> truthy (t_audio (trackH w (c_track (clipH w r))))
      | OnDevice r (set_d (Str name) y) \<Rightarrow> findWhere (d_params (deviceH w r)) name = None
      | _ \<Rightarrow> False)"

section \<open>Batches of strides\<close>

text \<open>The tail of a batch made of whole strides.\<close>

definition pairs_tail :: "(jsval \<times> jsval) list \<Rightarrow> jsval list" where
  "pairs_tail ps = concat (map (\<lambda>(n, v). [n, v]) ps)"

definition triples_tail :: "(jsval \<times> jsval \<times> jsval) list \<Rightarrow> jsval list" where
  "triples_tail ts = concat (map (\<lambda>(k, v, n). [k, v, n]) ts)"

text \<open>
  The events expected of a batch of sends: for each pair, in order, a local and a global
  \<open>send\<close> event that carry the level the table held just before the pair as
  \<open>prev\<close>. The table afterwards.
\<close>

fun send_events :: "sink \<Rightarrow> string \<Rightarrow> jsval \<Rightarrow> (jsval \<Rightarrow> jsval) \<Rightarrow> (jsval \<times> jsval) list
    \<Rightarrow> event list" where
  "send_events k pre i tbl [] = []"
| "send_events k pre i tbl ((n, v) # ps) =
     [(k, Plain (Str ''send''), Some [(''num'', n), (''value'', v), (''prev'', tbl n)]),
      (SongSink, Prefixed pre (Str ''send''),
         Some [(''id'', i), (''num'', n), (''value'', v), (''prev'', tbl n)])]
     @ send_events k pre i (tbl(n := v)) ps"

definition sends_after :: "(jsval \<Rightarrow> jsval) \<Rightarrow> (jsval \<times> jsval) list \<Rightarrow> (jsval \<Rightarrow> jsval)" where
  "sends_after tbl ps = fold (\<lambda>(n, v) f. f(n := v)) ps tbl"

text \<open>
  The events expected of one parameter triple that is taken as a change: a
  \<open>param\<close> event and an event named after the parameter, each local and global.
  The global ones lead with the device's id and type and, off the master track, end with
  the track's id.
\<close>

definition device_head :: "world \<Rightarrow> ref \<Rightarrow> payload" where
  "device_head w r = [(''id'', d_id (deviceH w r)), (''type'', Str (d_type (deviceH w r)))]"

definition device_tail :: "world \<Rightarrow> ref \<Rightarrow> payload" where
  "device_tail w r =
     (if d_type (deviceH w r) \<noteq> ''master''
      then [(''trackId'', owner_id w (d_track (deviceH w r)))] else [])"

definition param_change :: "ref \<Rightarrow> payload \<Rightarrow> payload \<Rightarrow> jsval \<Rightarrow> jsval \<Rightarrow> jsval \<Rightarrow> event list" where
  "param_change r lead trail v n prev =
     [(DeviceSink r, Plain (Str ''param''), Some [(''name'', n), (''value'', v), (''prev'', prev)]),
      (SongSink, Prefixed ''device:'' (Str ''param''),
         Some (lead @ [(''name'', n), (''value'', v), (''prev'', prev)] @ trail)),
      (DeviceSink r, Plain n, Some [(''value'', v), (''prev'', prev)]),
      (SongSink, Prefixed ''device:'' n, Some (lead @ [(''value'', v), (''prev'', prev)] @ trail))]"

definition param_set :: "(jsval \<times> param) list \<Rightarrow> jsval \<Rightarrow> jsval \<Rightarrow> jsval \<Rightarrow> (jsval \<times> param) list" where
  "param_set tbl k v n =
     AList.update k ((param_at tbl k)\<lparr>p_id := k, p_value := v, p_name := n\<rparr>) tbl"

text \<open>
  The events expected of a batch of parameters: for each triple, in order, the events of
  a change when the value differs from the one the table held just before the triple, and
  none when it does not. The table afterwards.
\<close>

fun param_events :: "ref \<Rightarrow> payload \<Rightarrow> payload \<Rightarrow> (jsval \<times> param) list
    \<Rightarrow> (jsval \<times> jsval \<times> jsval) list \<Rightarrow> event list" where
  "param_events r lead trail tbl [] = []"
| "param_events r lead trail tbl ((k, v, n) # ts) =
     (if loose_ne (p_value (param_at tbl k)) v
      then param_change r lead trail v n (p_value (param_at tbl k)) else [])
     @ param_events r lead trail (param_set tbl k v n) ts"

definition params_after :: "(jsval \<times> param) list \<Rightarrow> (jsval \<times> jsval \<times> jsval) list
    \<Rightarrow> (jsval \<times> param) list" where
  "params_after tbl ts = fold (\<lambda>(k, v, n) t. param_set t k v n) ts tbl"

text \<open>
  Where the model of \<open>==\<close> and of property keys is exact. An index that is a
  number is one property key and no other value gives that key; a value that is a number
  is compared without conversion with a stored value that is not a string. A batch of
  pairs with numbers as indices, a batch of triples with numbers as indices and values,
  and a parameter table with numbers as indices and no string as a stored value.
\<close>

fun is_num :: "jsval \<Rightarrow> bool" where
  "is_num (Num x) = True"
| "is_num _ = False"

fun is_str :: "jsval \<Rightarrow> bool" where
  "is_str (Str s) = True"
| "is_str _ = False"

definition plain_pairs :: "(jsval \<times> jsval) list \<Rightarrow> bool" where
  "plain_pairs ps = list_all (\<lambda>(n, v). is_num n) ps"

definition plain_triples :: "(jsval \<times> jsval \<times> jsval) list \<Rightarrow> bool" where
  "plain_triples ts = list_all (\<lambda>(k, v, n). is_num k \<and> is_num v) ts"

definition plain_table :: "(jsval \<times> param) list \<Rightarrow> bool" where
  "plain_table tbl = list_all (\<lambda>(k, p). is_num k \<and> \<not> is_str (p_value p)) tbl"

text \<open>
  The parameter names of a batch of triples.
\<close>

definition names :: "(jsval \<times> jsval \<times> jsval) list \<Rightarrow> jsval list" where
  "names ts = map (\<lambda>(k, v, n). n) ts"

text \<open>
  The leading arguments of a message match the scoping path of a device: the id of its
  track or return, then its own id; its own id alone on the master track.
\<close>

definition device_match :: "world \<Rightarrow> ref \<Rightarrow> jsval list \<Rightarrow> bool" where
  "device_match w r path =
     (if d_type (deviceH w r) = ''master'' then
        (case path of [d] \<Rightarrow> loose_eq d (d_id (deviceH w r)) | _ \<Rightarrow> False)
      else
        (case path of
           [t, d] \<Rightarrow> loose_eq t (owner_id w (d_track (deviceH w r)))
                       \<and> loose_eq d (d_id (deviceH w r))
         | _ \<Rightarrow> False))"

text \<open>
  The table once the entry of an index has been made: an empty entry after the others
  when the index had none.
\<close>

definition param_made :: "(jsval \<times> param) list \<Rightarrow> jsval \<Rightarrow> (jsval \<times> param) list" where
  "param_made tbl k = (if map_of tbl k = None then tbl @ [(k, empty_param)] else tbl)"

text \<open>
  The first two events of a change, the \<open>param\<close> event local and global: the
  events that have been emitted when the event named after the parameter throws.
\<close>

definition param_notice :: "ref \<Rightarrow> payload \<Rightarrow> payload \<Rightarrow> jsval \<Rightarrow> jsval \<Rightarrow> jsval \<Rightarrow> event list" where
  "param_notice r lead trail v n prev =
     [(DeviceSink r, Plain (Str ''param''), Some [(''name'', n), (''value'', v), (''prev'', prev)]),
      (SongSink, Prefixed ''device:'' (Str ''param''),
         Some (lead @ [(''name'', n), (''value'', v), (''prev'', prev)] @ trail))]"

text \<open>
  The world a parameter listener leaves: the world it found, with the device's table and
  with the events it emitted after those that were there.
\<close>

definition device_after :: "world \<Rightarrow> ref \<Rightarrow> (jsval \<times> param) list \<Rightarrow> event list \<Rightarrow> world" where
  "device_after w r tbl evs =
     w\<lparr>deviceH := (deviceH w)(r := (deviceH w r)\<lparr>d_params := tbl\<rparr>),
       events := events w @ evs\<rparr>"

section \<open>Subscriptions and runs of notifications\<close>

text \<open>The subscriptions of a device, by its type.\<close>

definition device_subs :: "string \<Rightarrow> ref \<Rightarrow> (string \<times> listener) list" where
  "device_subs type d =
     [(rangeAddr type, DeviceL d D_range),
      (allParamAddr type, DeviceL d D_allParam),
      (paramAddr type, DeviceL d D_param)]"

text \<open>
  The events expected of a run of volume notifications for a track: for each value, in
  order, a local and a global event that carry the value stored just before as
  \<open>prev\<close>.
\<close>

fun volume_events :: "ref \<Rightarrow> jsval \<Rightarrow> jsval \<Rightarrow> jsval list \<Rightarrow> event list" where
  "volume_events r i prev [] = []"
| "volume_events r i prev (v # vs) =
     [(TrackSink r, Plain (Str ''volume''), Some [(''value'', v), (''prev'', prev)]),
      (SongSink, Prefixed ''track:'' (Str ''volume''),
         Some [(''id'', i), (''value'', v), (''prev'', prev)])]
     @ volume_events r i v vs"

section \<open>Evaluating the receiver\<close>

lemmas prim_defs = send_def emit_def on_def removeListener_def upd_track_def upd_return_def
  upd_clip_def upd_device_def upd_song_def

lemma LiveOSC_world:
  "LiveOSC = blank\<lparr>w_song := new_song, subs := song_subs, sent := refresh_requests,
      events := [(SongSink, Plain (Str ''refresh''), None)], timers := 1\<rparr>"
  by (simp add: LiveOSC_def Song_def Song_refresh_def new_song_def blank_def prim_defs
      refresh_requests_def)

lemma listeners_subs_at: "listeners a w = subs_at a (subs w)"
  by (simp add: listeners_def subs_at_def)

lemma subs_at_append: "subs_at a (xs @ ys) = subs_at a xs @ subs_at a ys"
  by (simp add: subs_at_def)

lemma subs_at_song_subs:
  "subs_at ''/live/tracks'' song_subs = [SongL S_tracks]"
  "subs_at ''/live/returns'' song_subs = [SongL S_returns]"
  "subs_at ''/live/scenes'' song_subs = [SongL S_scenes]"
  "subs_at ''/live/master/volume'' song_subs = [SongL S_volume]"
  "subs_at ''/live/tempo'' song_subs = [SongL S_tempo]"
  by (simp_all add: subs_at_def song_subs_def)

lemma subs_at_track_subs:
  "subs_at ''/live/tracks'' (track_subs r) = []"
  "subs_at ''/live/returns'' (track_subs r) = []"
  "subs_at ''/live/scenes'' (track_subs r) = []"
  "subs_at ''/live/master/volume'' (track_subs r) = []"
  "subs_at ''/live/tempo'' (track_subs r) = []"
  by (simp_all add: subs_at_def track_subs_def)

lemma subs_at_return_subs:
  "subs_at ''/live/tracks'' (return_subs r) = []"
  "subs_at ''/live/returns'' (return_subs r) = []"
  "subs_at ''/live/scenes'' (return_subs r) = []"
  "subs_at ''/live/master/volume'' (return_subs r) = []"
  "subs_at ''/live/tempo'' (return_subs r) = []"
  by (simp_all add: subs_at_def return_subs_def)

lemma subs_at_clip_subs:
  "subs_at ''/live/tracks'' (clip_subs r) = []"
  "subs_at ''/live/returns'' (clip_subs r) = []"
  "subs_at ''/live/scenes'' (clip_subs r) = []"
  "subs_at ''/live/master/volume'' (clip_subs r) = []"
  "subs_at ''/live/tempo'' (clip_subs r) = []"
  by (simp_all add: subs_at_def clip_subs_def)

lemma upt_small: "[0..<2] = [0, 1]" "[0..<4] = [0, 1, 2, 3]"
  by (simp_all add: upt_rec)

lemmas at_simps = upt_small listeners_subs_at subs_at_append subs_at_song_subs
  subs_at_track_subs subs_at_return_subs subs_at_clip_subs

text \<open>What a listener of the song does to the world.\<close>

lemma song_listener_world:
  "song_listener name get put args w =
     w\<lparr>w_song := put (arg args 0) (w_song w),
       events := events w @
         [(SongSink, Plain (Str name), Some [(''value'', arg args 0), (''prev'', get (w_song w))])]\<rparr>"
  by (simp add: song_listener_def prim_defs Let_def)

section \<open>The round trip\<close>

lemma deliver_tracks: "deliver ''/live/tracks'' [Num 2] LiveOSC = after_tracks"
  unfolding deliver_def after_tracks_def LiveOSC_world
  by (simp add: at_simps Song_tracksListener_def tracks_step_def Track_def
      arg_def array_set_def blank_def new_song_def prim_defs)

lemma deliver_returns: "deliver ''/live/returns'' [Num 1] after_tracks = after_returns"
  unfolding deliver_def after_returns_def after_tracks_def LiveOSC_world
  by (simp add: at_simps Song_returnsListener_def returns_step_def Return_def
      arg_def array_set_def blank_def new_song_def prim_defs)

lemma deliver_scenes: "deliver ''/live/scenes'' [Num 4] after_returns = after_scenes"
  unfolding deliver_def after_scenes_def after_returns_def after_tracks_def LiveOSC_world
  by (simp add: at_simps Song_scenesListener_def Track_refreshClips_def Track_setNumScenes_def
      refreshClips_step_def Clip_def new_track_def
      arg_def array_set_def blank_def new_song_def prim_defs eval_nat_numeral)

lemma subs_after_scenes:
  "subs after_scenes = song_subs @ track_subs 0 @ track_subs 1 @ return_subs 0
     @ clip_subs 0 @ clip_subs 1 @ clip_subs 2 @ clip_subs 3
     @ clip_subs 4 @ clip_subs 5 @ clip_subs 6 @ clip_subs 7"
  by (simp add: after_scenes_def after_returns_def after_tracks_def)

lemma deliver_volume:
  "deliver ''/live/master/volume'' args after_scenes =
     Song_volumeListener args after_scenes"
  by (simp add: deliver_def at_simps subs_after_scenes)

lemma deliver_tempo:
  "subs w = subs after_scenes \<Longrightarrow> deliver ''/live/tempo'' args w = Song_tempoListener args w"
  by (simp add: deliver_def at_simps subs_after_scenes)

lemma round_trip_world:
  "round_trip =
     Song_tempoListener [Num 126] (Song_volumeListener [Num 0.8] after_scenes)"
  unfolding round_trip_def replies_def
  by (simp add: deliver_tracks deliver_returns deliver_scenes deliver_volume)
     (simp add: deliver_tempo Song_volumeListener_def song_listener_world)

lemma song_after_scenes:
  "w_song after_scenes = new_song\<lparr>s_tracks := [0, 1], s_returns := [0]\<rparr>"
  by (simp add: after_scenes_def after_returns_def after_tracks_def LiveOSC_world blank_def)

lemma tracks_after_scenes:
  "trackH after_scenes 0 = (new_track (Num 0))\<lparr>t_clips := [0, 1, 2, 3], t_numScenes := Num 4\<rparr>"
  "trackH after_scenes (Suc 0) =
     (new_track (Num 1))\<lparr>t_clips := [4, 5, 6, 7], t_numScenes := Num 4\<rparr>"
  by (simp_all add: after_scenes_def)

text \<open>
  C7. From a freshly constructed song, the replies of the round trip leave two tracks,
  each with \<open>numScenes\<close> 4 and four clips, one return, the master volume 0.8
  and the tempo 126.
\<close>

theorem round_trip_mirror:
  "length (s_tracks (w_song round_trip)) = 2
   \<and> map (\<lambda>t. (t_numScenes (trackH round_trip t), length (t_clips (trackH round_trip t))))
         (s_tracks (w_song round_trip)) = [(Num 4, 4), (Num 4, 4)]
   \<and> length (s_returns (w_song round_trip)) = 1
   \<and> s_volume (w_song round_trip) = Num 0.8
   \<and> s_tempo (w_song round_trip) = Num 126"
proof -
  have song: "w_song round_trip =
      new_song\<lparr>s_tracks := [0, 1], s_returns := [0], s_volume := Num 0.8, s_tempo := Num 126\<rparr>"
    by (simp add: round_trip_world Song_tempoListener_def Song_volumeListener_def
        song_listener_world song_after_scenes arg_def)
  have tracks: "trackH round_trip = trackH after_scenes"
    by (simp add: round_trip_world Song_tempoListener_def Song_volumeListener_def
        song_listener_world)
  show ?thesis
    by (simp add: song tracks tracks_after_scenes new_song_def)
qed

section \<open>Small worlds\<close>

lemma one_track_world:
  "one_track = LiveOSC\<lparr>w_song := new_song\<lparr>s_tracks := [0]\<rparr>,
      trackH := (trackH LiveOSC)(0 := new_track (Num 0)),
      trackN := 1,
      subs := song_subs @ track_subs 0,
      sent := refresh_requests @
         [(''/live/name/track'', [Typed ''integer'' (Num 0)]),
          (''/live/send'', [Typed ''integer'' (Num 0)]),
          (''/live/scenes'', [])]\<rparr>"
  unfolding one_track_def deliver_def LiveOSC_world
  by (simp add: at_simps Song_tracksListener_def tracks_step_def Track_def
      arg_def array_set_def blank_def new_song_def prim_defs)

lemma one_return_world:
  "one_return = LiveOSC\<lparr>w_song := new_song\<lparr>s_returns := [0]\<rparr>,
      returnH := (returnH LiveOSC)(0 := new_return (Num 0)),
      returnN := 1,
      subs := song_subs @ return_subs 0,
      sent := refresh_requests @
         [(''/live/return/send'', [Typed ''integer'' (Num 0)]),
          (''/live/name/return'', [Typed ''integer'' (Num 0)])]\<rparr>"
  unfolding one_return_def deliver_def LiveOSC_world
  by (simp add: at_simps Song_returnsListener_def returns_step_def Return_def
      arg_def array_set_def blank_def new_song_def prim_defs)

lemma one_return_fields:
  "subs one_return = song_subs @ return_subs 0"
  "returnH one_return 0 = new_return (Num 0)"
  "events one_return = [(SongSink, Plain (Str ''refresh''), None)]"
  "deviceN one_return = 0"
  by (simp_all add: one_return_world LiveOSC_world blank_def)

lemma one_track_fields:
  "subs one_track = song_subs @ track_subs 0"
  "trackH one_track 0 = new_track (Num 0)"
  "events one_track = [(SongSink, Plain (Str ''refresh''), None)]"
  "deviceN one_track = 0"
  "clipN one_track = 0"
  "rcv_devices one_track = None"
  "w_song one_track = new_song\<lparr>s_tracks := [0]\<rparr>"
  by (simp_all add: one_track_world LiveOSC_world blank_def)

lemma track_addrs:
  "rangeAddr ''track'' = ''/live/device/range''"
  "allParamAddr ''track'' = ''/live/device/allparam''"
  "paramAddr ''track'' = ''/live/device/param''"
  "infoAddr ''track'' = ''/live/device''"
  by (simp_all add: rangeAddr_def allParamAddr_def paramAddr_def infoAddr_def)

lemma master_addrs:
  "rangeAddr ''master'' = ''/live/master/device/range''"
  "allParamAddr ''master'' = ''/live/master/device''"
  "paramAddr ''master'' = ''/live/master/device/param''"
  "infoAddr ''master'' = ''/live/master/device''"
  by (simp_all add: rangeAddr_def allParamAddr_def paramAddr_def infoAddr_def)

section \<open>Destroying a return\<close>

lemma Return_destroy_subs:
  "subs (Return_destroy 0 one_return) =
     song_subs @ [(''/live/return/devicelist'', ReturnL 0 R_devicelist)]"
  by (simp add: Return_destroy_def one_return_fields new_return_def prim_defs Let_def
      song_subs_def return_subs_def)

lemma Return_destroy_fields:
  "returnH (Return_destroy 0 one_return) 0 = new_return (Num 0)"
  "deviceN (Return_destroy 0 one_return) = 0"
  by (simp_all add: Return_destroy_def one_return_fields new_return_def prim_defs Let_def)

text \<open>
  C1, at a return. The one return of the song is destroyed. Its device list listener is
  still registered under \<open>/live/return/devicelist\<close>, and a device list for the
  return that arrives afterwards is handled: the destroyed return, which had no device,
  has one.
\<close>

theorem Return_destroy_keeps_devicelist_subscription:
  "listeners ''/live/return/devicelist'' (Return_destroy 0 one_return) = [ReturnL 0 R_devicelist]
   \<and> r_devices (returnH (Return_destroy 0 one_return) 0) = []
   \<and> r_devices (returnH (deliver ''/live/return/devicelist'' [Num 0, Num 0, Str ''Reverb'']
                             (Return_destroy 0 one_return)) 0) = [0]"
proof -
  have l: "listeners ''/live/return/devicelist'' (Return_destroy 0 one_return) =
      [ReturnL 0 R_devicelist]"
    by (simp add: listeners_subs_at Return_destroy_subs subs_at_def song_subs_def)
  show ?thesis
    by (simp add: deliver_def l Return_destroy_fields Return_devicelistListener_def
        devicelist_step_def Device_def new_return_def arg_def loose_ne_def prim_defs Let_def)
qed

section \<open>The volume of a return\<close>

lemma return_volume_listeners:
  "subs_at ''/live/return/volume'' song_subs = []"
  "subs_at ''/live/return/volume'' (return_subs r) = [ReturnL r R_volume]"
  by (simp_all add: subs_at_def song_subs_def return_subs_def)

text \<open>
  C2, at the volume of a return. The one return of the song has the volume 0 when the
  notification of the volume 0.5 arrives. The local and the global event both carry 0.5
  as \<open>prev\<close>: the field is stored before the event is emitted.
\<close>

theorem Return_volume_event_carries_new_value_as_prev:
  "r_volume (returnH one_return 0) = Num 0
   \<and> events (deliver ''/live/return/volume'' [Num 0, Num 0.5] one_return) =
       events one_return @
         [(ReturnSink 0, Plain (Str ''volume''), Some [(''value'', Num 0.5), (''prev'', Num 0.5)]),
          (SongSink, Prefixed ''return:'' (Str ''volume''),
             Some [(''id'', Num 0), (''value'', Num 0.5), (''prev'', Num 0.5)])]"
  by (simp add: deliver_def listeners_subs_at subs_at_append one_return_fields
      return_volume_listeners Return_volumeListener_def Return_emitEvent_def new_return_def
      arg_def loose_ne_def prim_defs Let_def)

section \<open>The device list of a track\<close>

text \<open>What the track's device list listener does with one pair, whatever the world.\<close>

lemma Track_devicelist_one:
  "\<not> loose_ne i (t_id (trackH w r)) \<Longrightarrow>
   rcv_devices w = None \<or> rcv_devices w = Some [] \<Longrightarrow>
   Track_devicelistListener r [i, d, n] w =
     w\<lparr>trackH := (trackH w)(r := (trackH w r)\<lparr>t_devices := t_devices (trackH w r) @ [deviceN w]\<rparr>),
       deviceH := (deviceH w)(deviceN w := new_device d (TrackObj r) ''track'' n),
       deviceN := Suc (deviceN w),
       subs := subs w @ track_device_subs (deviceN w),
       sent := sent w @
         [(''/live/device'', [Typed ''integer'' (t_id (trackH w r)), Typed ''integer'' d]),
          (''/live/device/range'', [Typed ''integer'' (t_id (trackH w r)), Typed ''integer'' d])],
       rcv_devices := Some []\<rparr>"
  by (auto simp add: Track_devicelistListener_def devicelist_step_def Device_def arg_def
      track_addrs track_device_subs_def device_path_def prim_defs Let_def)

lemma devicelist_listeners:
  "subs_at ''/live/devicelist'' song_subs = []"
  "subs_at ''/live/devicelist'' (track_subs r) = [TrackL r T_devicelist]"
  "subs_at ''/live/devicelist'' (track_device_subs d) = []"
  by (simp_all add: subs_at_def song_subs_def track_subs_def track_device_subs_def)

lemma param_listeners:
  "subs_at ''/live/device/param'' song_subs = []"
  "subs_at ''/live/device/param'' (track_subs r) = []"
  "subs_at ''/live/device/param'' (track_device_subs d) = [DeviceL d D_param]"
  by (simp_all add: subs_at_def song_subs_def track_subs_def track_device_subs_def)

lemma deliver_devicelist_one_track:
  "deliver ''/live/devicelist'' [Num 0, d, n] one_track =
     Track_devicelistListener 0 [Num 0, d, n] one_track"
  by (simp add: deliver_def listeners_subs_at subs_at_append one_track_fields
      devicelist_listeners)

text \<open>
  C3, at the devices of a track. The same device list, one device with id 0, arrives
  twice for the one track of the song. The track then holds two devices with id 0, and
  both are subscribed: the first was not destroyed.
\<close>

theorem Track_devicelist_twice_leaves_two_live_devices:
  "t_devices (trackH devicelist_twice 0) = [0, 1]
   \<and> d_id (deviceH devicelist_twice 0) = Num 0 \<and> d_track (deviceH devicelist_twice 0) = TrackObj 0
   \<and> d_id (deviceH devicelist_twice 1) = Num 0 \<and> d_track (deviceH devicelist_twice 1) = TrackObj 0
   \<and> listeners ''/live/device/param'' devicelist_twice = [DeviceL 0 D_param, DeviceL 1 D_param]"
proof -
  let ?m = "[Num 0, Num 0, Str ''Reverb'']"
  let ?w1 = "Track_devicelistListener 0 ?m one_track"
  have w1: "?w1 = one_track\<lparr>
       trackH := (trackH one_track)(0 := (new_track (Num 0))\<lparr>t_devices := [0]\<rparr>),
       deviceH := (deviceH one_track)(0 := new_device (Num 0) (TrackObj 0) ''track'' (Str ''Reverb'')),
       deviceN := 1,
       subs := song_subs @ track_subs 0 @ track_device_subs 0,
       sent := sent one_track @
         [(''/live/device'', [Typed ''integer'' (Num 0), Typed ''integer'' (Num 0)]),
          (''/live/device/range'', [Typed ''integer'' (Num 0), Typed ''integer'' (Num 0)])],
       rcv_devices := Some []\<rparr>"
    by (subst Track_devicelist_one)
       (simp_all add: one_track_fields new_track_def loose_ne_def)
  have l: "listeners ''/live/devicelist'' ?w1 = [TrackL 0 T_devicelist]"
    by (simp add: w1 listeners_subs_at subs_at_append devicelist_listeners)
  have "devicelist_twice = Track_devicelistListener 0 ?m ?w1"
    by (simp add: devicelist_twice_def deliver_devicelist_one_track)
       (simp add: deliver_def l)
  also have "\<dots> = ?w1\<lparr>
       trackH := (trackH ?w1)(0 := (new_track (Num 0))\<lparr>t_devices := [0, 1]\<rparr>),
       deviceH := (deviceH ?w1)(1 := new_device (Num 0) (TrackObj 0) ''track'' (Str ''Reverb'')),
       deviceN := 2,
       subs := song_subs @ track_subs 0 @ track_device_subs 0 @ track_device_subs 1,
       sent := sent ?w1 @
         [(''/live/device'', [Typed ''integer'' (Num 0), Typed ''integer'' (Num 0)]),
          (''/live/device/range'', [Typed ''integer'' (Num 0), Typed ''integer'' (Num 0)])],
       rcv_devices := Some []\<rparr>"
    by (subst Track_devicelist_one) (simp_all add: w1 new_track_def loose_ne_def)
  finally have w2: "devicelist_twice = \<dots>" .
  show ?thesis
    by (simp add: w2 w1 listeners_subs_at subs_at_append param_listeners new_device_def
        new_track_def)
qed

section \<open>The info of a track\<close>

lemma trackinfo_listeners:
  "subs_at ''/live/track/info'' song_subs = []"
  "subs_at ''/live/track/info'' (track_subs r) = [TrackL r T_trackinfo]"
  by (simp_all add: subs_at_def song_subs_def track_subs_def)

text \<open>
  C4, at the info of a track. The one track of the song is new, with every field 0, when
  its info arrives with arm, solo, mute and audio 1, volume 0.5 and pan 0.25. The events
  for arm, solo and mute carry 1 as \<open>prev\<close>, no event is emitted for audio, and
  the volume and the pan of the track are still 0 afterwards: the two values are stored
  on the receiver.
\<close>

theorem Track_info_events_and_fields:
  "t_arm (trackH one_track 0) = Num 0 \<and> t_solo (trackH one_track 0) = Num 0
   \<and> t_mute (trackH one_track 0) = Num 0
   \<and> events after_trackinfo = events one_track @
       [(TrackSink 0, Plain (Str ''arm''), Some [(''value'', Num 1), (''prev'', Num 1)]),
        (SongSink, Prefixed ''track:'' (Str ''arm''),
           Some [(''id'', Num 0), (''value'', Num 1), (''prev'', Num 1)]),
        (TrackSink 0, Plain (Str ''solo''), Some [(''value'', Num 1), (''prev'', Num 1)]),
        (SongSink, Prefixed ''track:'' (Str ''solo''),
           Some [(''id'', Num 0), (''value'', Num 1), (''prev'', Num 1)]),
        (TrackSink 0, Plain (Str ''mute''), Some [(''value'', Num 1), (''prev'', Num 1)]),
        (SongSink, Prefixed ''track:'' (Str ''mute''),
           Some [(''id'', Num 0), (''value'', Num 1), (''prev'', Num 1)]),
        (TrackSink 0, Plain (Str ''volume''), Some [(''value'', Num 0.5), (''prev'', Num 0)]),
        (SongSink, Prefixed ''track:'' (Str ''volume''),
           Some [(''id'', Num 0), (''value'', Num 0.5), (''prev'', Num 0)]),
        (TrackSink 0, Plain (Str ''pan''), Some [(''value'', Num 0.25), (''prev'', Num 0)]),
        (SongSink, Prefixed ''track:'' (Str ''pan''),
           Some [(''id'', Num 0), (''value'', Num 0.25), (''prev'', Num 0)])]
   \<and> t_volume (trackH after_trackinfo 0) = Num 0
   \<and> t_pan (trackH after_trackinfo 0) = Num 0
   \<and> rcv_volume after_trackinfo = Num 0.5
   \<and> rcv_pan after_trackinfo = Num 0.25"
  by (simp add: after_trackinfo_def deliver_def listeners_subs_at subs_at_append
      one_track_fields trackinfo_listeners Track_trackinfoListener_def Track_emitEvent_def
      Track_refreshClips_def new_track_def arg_def loose_ne_def prim_defs Let_def)

section \<open>Devices\<close>

lemma one_device_world:
  "one_device = one_track\<lparr>
       trackH := (trackH one_track)(0 := (new_track (Num 0))\<lparr>t_devices := [0]\<rparr>),
       deviceH := (deviceH one_track)(0 := new_device (Num 3) (TrackObj 0) ''track'' (Str ''Reverb'')),
       deviceN := 1,
       subs := song_subs @ track_subs 0 @ track_device_subs 0,
       sent := sent one_track @
         [(''/live/device'', [Typed ''integer'' (Num 0), Typed ''integer'' (Num 3)]),
          (''/live/device/range'', [Typed ''integer'' (Num 0), Typed ''integer'' (Num 3)])],
       rcv_devices := Some []\<rparr>"
  unfolding one_device_def deliver_devicelist_one_track
  by (subst Track_devicelist_one) (simp_all add: one_track_fields new_track_def loose_ne_def)

lemma one_device_fields:
  "subs one_device = song_subs @ track_subs 0 @ track_device_subs 0"
  "deviceH one_device 0 = new_device (Num 3) (TrackObj 0) ''track'' (Str ''Reverb'')"
  "trackH one_device 0 = (new_track (Num 0))\<lparr>t_devices := [0]\<rparr>"
  "events one_device = [(SongSink, Plain (Str ''refresh''), None)]"
  by (simp_all add: one_device_world one_track_fields)

lemma master_devicelist_listeners:
  "subs_at ''/live/master/devicelist'' song_subs = [SongL S_devicelist]"
  by (simp add: subs_at_def song_subs_def)

lemma master_device_world:
  "master_device = LiveOSC\<lparr>
       w_song := new_song\<lparr>s_devices := [0]\<rparr>,
       deviceH := (deviceH LiveOSC)(0 := new_device (Num 2) SongObj ''master'' (Str ''Limiter'')),
       deviceN := 1,
       subs := song_subs @ master_device_subs 0,
       sent := refresh_requests @
         [(''/live/master/device'', [Typed ''integer'' (Num 2)]),
          (''/live/master/device/range'', [Typed ''integer'' (Num 2)])]\<rparr>"
  unfolding master_device_def deliver_def LiveOSC_world
  by (simp add: listeners_subs_at master_devicelist_listeners Song_devicelistListener_def
      devicelist_step_def Device_def master_addrs master_device_subs_def device_path_def
      blank_def new_song_def prim_defs Let_def)

lemma master_device_fields:
  "deviceH master_device 0 = new_device (Num 2) SongObj ''master'' (Str ''Limiter'')"
  "sent master_device = refresh_requests @
         [(''/live/master/device'', [Typed ''integer'' (Num 2)]),
          (''/live/master/device/range'', [Typed ''integer'' (Num 2)])]"
  by (simp_all add: master_device_world)

text \<open>
  C10. \<open>view\<close> of a device whose type is \<open>track\<close> or \<open>return\<close>
  sends one message to \<open>/live/<type>/device/view\<close> with two integer arguments,
  both the device's id; on the master track it sends the device's id alone.
\<close>

theorem Device_view_message:
  "(d_type (deviceH w r) = ''track'' \<or> d_type (deviceH w r) = ''return'' \<longrightarrow>
      Device_view r w = w\<lparr>sent := sent w @
        [(''/live/'' @ d_type (deviceH w r) @ ''/device/view'',
          [Typed ''integer'' (d_id (deviceH w r)), Typed ''integer'' (d_id (deviceH w r))])]\<rparr>)
   \<and> (d_type (deviceH w r) = ''master'' \<longrightarrow>
      Device_view r w = w\<lparr>sent := sent w @
        [(''/live/master/device/view'', [Typed ''integer'' (d_id (deviceH w r))])]\<rparr>)"
  by (auto simp add: Device_view_def send_def Let_def)

theorem Device_view_message_witness:
  "d_type (deviceH one_device 0) = ''track''
   \<and> owner_id one_device (d_track (deviceH one_device 0)) = Num 0
   \<and> Device_view 0 one_device = one_device\<lparr>sent := sent one_device @
        [(''/live/track/device/view'', [Typed ''integer'' (Num 3), Typed ''integer'' (Num 3)])]\<rparr>
   \<and> d_type (deviceH master_device 0) = ''master''
   \<and> Device_view 0 master_device = master_device\<lparr>sent := sent master_device @
        [(''/live/master/device/view'', [Typed ''integer'' (Num 2)])]\<rparr>"
  using Device_view_message [of one_device 0] Device_view_message [of master_device 0]
  by (simp add: one_device_fields master_device_fields new_device_def new_track_def)

section \<open>Setting a parameter by name\<close>

lemma findWhere_from_None:
  "findWhere_from best ps name = None \<longleftrightarrow>
     best = None \<and> (\<forall>(k, p) \<in> set ps. array_index k = None \<or> p_name p \<noteq> Str name)"
  by (induction best ps name rule: findWhere_from.induct) (auto split: option.splits)

lemma findWhere_from_Some:
  "findWhere_from best ps name = Some (i, p) \<Longrightarrow>
     best = Some (i, p) \<or> (\<exists>k. (k, p) \<in> set ps \<and> array_index k = Some i \<and> p_name p = Str name)"
  by (induction best ps name rule: findWhere_from.induct)
     (auto split: option.splits if_splits)

lemma findWhere_None:
  "findWhere ps name = None \<longleftrightarrow>
     (\<forall>k p. (k, p) \<in> set ps \<longrightarrow> array_index k = None \<or> p_name p \<noteq> Str name)"
  by (auto simp add: findWhere_def findWhere_from_None) fastforce+

lemma findWhere_Some:
  "findWhere ps name = Some p \<Longrightarrow>
     \<exists>k i. (k, p) \<in> set ps \<and> array_index k = Some i \<and> p_name p = Str name"
  using findWhere_from_Some [of None ps name] by (fastforce simp add: findWhere_def)

text \<open>
  C5. \<open>set\<close> with a name that no entry of the parameter table carries throws
  \<open>No parameter with name\<close> and the world is as it was, so nothing was sent.
  With a name that an element of the table carries, it sends exactly one message to the
  address of \<open>set\<close>, with the path of the device, the \<open>id\<close> of an
  element of that name, and the value.
\<close>

theorem Device_set_by_name:
  "((\<forall>k p. (k, p) \<in> set (d_params (deviceH w r)) \<longrightarrow> p_name p \<noteq> Str name) \<longrightarrow>
      Device_set r (Str name) v w = (Inl (Error (''No parameter with name '' @ name)), w))
   \<and> ((\<exists>k p i. (k, p) \<in> set (d_params (deviceH w r)) \<and> array_index k = Some i
                \<and> p_name p = Str name) \<longrightarrow>
      (\<exists>k p i. (k, p) \<in> set (d_params (deviceH w r)) \<and> array_index k = Some i
                \<and> p_name p = Str name
         \<and> Device_set r (Str name) v w =
             (Inr (), w\<lparr>sent := sent w @
                [(set_addr (d_type (deviceH w r)),
                  device_path (d_type (deviceH w r)) (owner_id w (d_track (deviceH w r)))
                      (d_id (deviceH w r))
                    @ [Typed ''integer'' (p_id p), Typed ''integer'' v])]\<rparr>)))"
proof (intro conjI impI)
  assume "\<forall>k p. (k, p) \<in> set (d_params (deviceH w r)) \<longrightarrow> p_name p \<noteq> Str name"
  then have "findWhere (d_params (deviceH w r)) name = None"
    unfolding findWhere_None by blast
  then show "Device_set r (Str name) v w = (Inl (Error (''No parameter with name '' @ name)), w)"
    by (simp add: Device_set_def Let_def)
next
  assume "\<exists>k p i. (k, p) \<in> set (d_params (deviceH w r)) \<and> array_index k = Some i
                \<and> p_name p = Str name"
  then have "findWhere (d_params (deviceH w r)) name \<noteq> None"
    unfolding findWhere_None by fastforce
  then obtain p where p: "findWhere (d_params (deviceH w r)) name = Some p"
    by auto
  from findWhere_Some [OF p] obtain k i where
    "(k, p) \<in> set (d_params (deviceH w r))" "array_index k = Some i" "p_name p = Str name"
    by auto
  moreover have "Device_set r (Str name) v w =
             (Inr (), w\<lparr>sent := sent w @
                [(set_addr (d_type (deviceH w r)),
                  device_path (d_type (deviceH w r)) (owner_id w (d_track (deviceH w r)))
                      (d_id (deviceH w r))
                    @ [Typed ''integer'' (p_id p), Typed ''integer'' v])]\<rparr>)"
    by (simp add: Device_set_def Let_def p set_addr_def send_def)
  ultimately show "\<exists>k p i. (k, p) \<in> set (d_params (deviceH w r)) \<and> array_index k = Some i
                \<and> p_name p = Str name
         \<and> Device_set r (Str name) v w =
             (Inr (), w\<lparr>sent := sent w @
                [(set_addr (d_type (deviceH w r)),
                  device_path (d_type (deviceH w r)) (owner_id w (d_track (deviceH w r)))
                      (d_id (deviceH w r))
                    @ [Typed ''integer'' (p_id p), Typed ''integer'' v])]\<rparr>)"
    by blast
qed


lemma allparam_listeners:
  "subs_at ''/live/device/allparam'' song_subs = []"
  "subs_at ''/live/device/allparam'' (track_subs r) = []"
  "subs_at ''/live/device/allparam'' (track_device_subs d) = [DeviceL d D_allParam]"
  by (simp_all add: subs_at_def song_subs_def track_subs_def track_device_subs_def)

lemma tuned_params:
  "d_params (deviceH tuned 0) =
     [(Num 0, \<lparr>p_id = Num 0, p_value = Num 1, p_name = Str ''Device On'', p_min = Undef, p_max = Undef\<rparr>),
      (Num 1, \<lparr>p_id = Num 1, p_value = Num 0.5, p_name = Str ''Dry/Wet'', p_min = Undef, p_max = Undef\<rparr>)]"
  "d_type (deviceH tuned 0) = ''track''"
  "d_id (deviceH tuned 0) = Num 3"
  "owner_id tuned (d_track (deviceH tuned 0)) = Num 0"
  by (simp_all add: tuned_def deliver_def listeners_subs_at subs_at_append one_device_fields
      allparam_listeners Device_allParamListener_def device_filter_def allParam_step_def
      ensure_param_def Device_emitEvent_def set_param_def param_at_def empty_param_def
      new_device_def new_track_def arg_def loose_ne_def prim_defs Let_def)

theorem Device_set_by_name_witness:
  "Device_set 0 (Str ''Cutoff'') (Num 1) tuned =
     (Inl (Error ''No parameter with name Cutoff''), tuned)
   \<and> Device_set 0 (Str ''Dry/Wet'') (Num 1) tuned =
     (Inr (), tuned\<lparr>sent := sent tuned @
        [(''/live/device'', [Typed ''integer'' (Num 0), Typed ''integer'' (Num 3),
                             Typed ''integer'' (Num 1), Typed ''integer'' (Num 1)])]\<rparr>)"
proof -
  have none: "\<forall>k p. (k, p) \<in> set (d_params (deviceH tuned 0)) \<longrightarrow> p_name p \<noteq> Str ''Cutoff''"
    by (auto simp add: tuned_params)
  have some: "\<exists>k p i. (k, p) \<in> set (d_params (deviceH tuned 0))
      \<and> array_index k = Some i \<and> p_name p = Str ''Dry/Wet''"
    apply (rule exI [of _ "Num 1"])
    apply (rule exI [of _ "\<lparr>p_id = Num 1, p_value = Num 0.5, p_name = Str ''Dry/Wet'',
              p_min = Undef, p_max = Undef\<rparr>"])
    apply (rule exI [of _ 1])
    apply (simp add: tuned_params)
    done
  from Device_set_by_name [of tuned 0 "''Cutoff''" "Num 1"] none
  have a: "Device_set 0 (Str ''Cutoff'') (Num 1) tuned =
      (Inl (Error ''No parameter with name Cutoff''), tuned)"
    by simp
  from Device_set_by_name [of tuned 0 "''Dry/Wet''" "Num 1"] some
  obtain k p where kp: "(k, p) \<in> set (d_params (deviceH tuned 0))" "p_name p = Str ''Dry/Wet''"
    and b: "Device_set 0 (Str ''Dry/Wet'') (Num 1) tuned =
      (Inr (), tuned\<lparr>sent := sent tuned @
         [(set_addr (d_type (deviceH tuned 0)),
           device_path (d_type (deviceH tuned 0)) (owner_id tuned (d_track (deviceH tuned 0)))
               (d_id (deviceH tuned 0))
             @ [Typed ''integer'' (p_id p), Typed ''integer'' (Num 1)])]\<rparr>)"
    by blast
  from kp have "p_id p = Num 1"
    by (auto simp add: tuned_params)
  with a b show ?thesis
    by (simp add: tuned_params set_addr_def device_path_def)
qed

section \<open>The identity filter\<close>








section \<open>The mutators\<close>

lemma send_one_message:
  "\<exists>msgs. send a as w = w\<lparr>sent := sent w @ msgs\<rparr> \<and> length msgs = Suc 0"
  by (rule exI [of _ "[(a, as)]"]) (simp add: send_def)

lemma track_calls_send:
  "\<exists>msgs. invoke_track r c w = w\<lparr>sent := sent w @ msgs\<rparr> \<and> length msgs = Suc 0"
  by (cases c)
     (simp_all add: send_one_message Track_setName_def Track_setArm_def Track_setSolo_def
       Track_setMute_def Track_setVolume_def Track_setPan_def Track_setSend_def Track_view_def)

lemma return_calls_send:
  "\<exists>msgs. invoke_return r c w = w\<lparr>sent := sent w @ msgs\<rparr> \<and> length msgs = Suc 0"
  by (cases c)
     (simp_all add: send_one_message Return_setName_def Return_setSolo_def Return_setMute_def
       Return_setVolume_def Return_setPan_def Return_setSend_def Return_view_def)

lemma song_calls_send:
  "\<exists>msgs. invoke_song c w = w\<lparr>sent := sent w @ msgs\<rparr> \<and> length msgs = Suc 0"
  by (cases c)
     (simp_all add: send_one_message Song_stop_def Song_play_def Song_continue_def
       Song_nextCue_def Song_prevCue_def Song_undo_def Song_redo_def Song_view_def
       Song_playScene_def Song_setVolume_def Song_setPan_def Song_setTempo_def)

lemma clip_calls_send:
  "\<exists>msgs. invoke_clip r c w = w\<lparr>sent := sent w @ msgs\<rparr>
     \<and> length msgs = (if silent (OnClip r c) w then 0 else 1)"
proof (cases c)
  case (setPitch_c x y)
  then show ?thesis
    by (cases "truthy (t_audio (trackH w (c_track (clipH w r))))")
       (simp_all add: silent_def Clip_setPitch_def send_one_message)
qed (simp_all add: silent_def send_one_message Clip_play_def Clip_stop_def Clip_setName_def
       Clip_setLoopstart_def Clip_setLoopend_def Clip_setLoopstate_def Clip_setWarping_def
       Clip_view_def)

lemma device_calls_send:
  "\<exists>msgs. invoke_device r c w = w\<lparr>sent := sent w @ msgs\<rparr>
     \<and> length msgs = (if silent (OnDevice r c) w then 0 else 1)"
proof (cases c)
  case (set_d x y)
  show ?thesis
  proof (cases x)
    case (Str name)
    with set_d show ?thesis
      by (cases "findWhere (d_params (deviceH w r)) name")
         (simp_all add: silent_def Device_set_def Let_def send_one_message)
  qed (simp_all add: set_d silent_def Device_set_def Let_def send_one_message)
next
  case view_d
  then show ?thesis
    by (simp add: silent_def Device_view_def Let_def send_one_message)
qed

text \<open>
  C9, amended. Every mutator leaves the world as it was but for the messages handed to the
  emitter, to which it adds exactly one, or none when the call is a pitch for a clip on a
  track that is not audio or a parameter name that the device does not resolve.
\<close>

theorem mutators_only_send:
  "\<exists>msgs. invoke c w = w\<lparr>sent := sent w @ msgs\<rparr>
     \<and> length msgs = (if silent c w then 0 else 1)"
proof (cases c)
  case (OnTrack r k)
  with track_calls_send [of r k w] show ?thesis
    by (simp add: silent_def)
next
  case (OnReturn r k)
  with return_calls_send [of r k w] show ?thesis
    by (simp add: silent_def)
next
  case (OnClip r k)
  with clip_calls_send [of r k w] show ?thesis
    by simp
next
  case (OnDevice r k)
  with device_calls_send [of r k w] show ?thesis
    by simp
next
  case (OnSong k)
  with song_calls_send [of k w] show ?thesis
    by (simp add: silent_def)
qed

lemma scenes_listeners:
  "subs_at ''/live/scenes'' song_subs = [SongL S_scenes]"
  "subs_at ''/live/scenes'' (track_subs r) = []"
  by (simp_all add: subs_at_def song_subs_def track_subs_def)

lemma one_clip_fields:
  "clipH one_clip 0 = new_clip 0 (Num 0)"
  "trackH one_clip 0 = (new_track (Num 0))\<lparr>t_clips := [0], t_numScenes := Num 1\<rparr>"
  by (simp_all add: one_clip_def deliver_def listeners_subs_at subs_at_append
      one_track_fields scenes_listeners Song_scenesListener_def Track_refreshClips_def
      Track_setNumScenes_def refreshClips_step_def Clip_def new_track_def
      arg_def array_set_def prim_defs Let_def)

text \<open>
  C9, as stated, fails at \<open>setPitch\<close>: the clip of a new track, which is not
  audio, is asked for a pitch of 12, and nothing is sent.
\<close>

theorem Clip_setPitch_on_midi_track_sends_nothing:
  "t_clips (trackH one_clip 0) = [0] \<and> c_track (clipH one_clip 0) = 0
   \<and> Clip_setPitch 0 (Num 12) (Num 0) one_clip = one_clip
   \<and> sent (Clip_setPitch 0 (Num 12) (Num 0) one_clip) = sent one_clip"
  by (simp add: Clip_setPitch_def one_clip_fields new_clip_def new_track_def)

text \<open>
  The amended statement at two calls: setting the volume of a new track to 0.5 adds the one
  message \<open>/live/volume 0 0.5\<close> and leaves the stored volume at 0, and the pitch
  call above is one of the silent ones and leaves the world as it was.
\<close>

theorem mutators_only_send_witness:
  "invoke (OnTrack 0 (setVolume_t (Num 0.5))) one_track =
     one_track\<lparr>sent := sent one_track @
        [(''/live/volume'', [Typed ''integer'' (Num 0), Typed ''float'' (Num 0.5)])]\<rparr>
   \<and> t_volume (trackH (invoke (OnTrack 0 (setVolume_t (Num 0.5))) one_track) 0) = Num 0
   \<and> \<not> silent (OnTrack 0 (setVolume_t (Num 0.5))) one_track
   \<and> silent (OnClip 0 (setPitch_c (Num 12) (Num 0))) one_clip
   \<and> invoke (OnClip 0 (setPitch_c (Num 12) (Num 0))) one_clip = one_clip"
proof -
  from mutators_only_send [of "OnTrack 0 (setVolume_t (Num 0.5))" one_track]
  obtain msgs where a: "invoke (OnTrack 0 (setVolume_t (Num 0.5))) one_track =
      one_track\<lparr>sent := sent one_track @ msgs\<rparr>"
    by blast
  have "sent (invoke (OnTrack 0 (setVolume_t (Num 0.5))) one_track) =
      sent one_track @ [(''/live/volume'', [Typed ''integer'' (Num 0), Typed ''float'' (Num 0.5)])]"
    by (simp add: Track_setVolume_def send_def one_track_fields new_track_def)
  with a have m: "msgs = [(''/live/volume'', [Typed ''integer'' (Num 0), Typed ''float'' (Num 0.5)])]"
    by simp
  have s: "silent (OnClip 0 (setPitch_c (Num 12) (Num 0))) one_clip"
    by (simp add: silent_def one_clip_fields new_clip_def new_track_def)
  from mutators_only_send [of "OnClip 0 (setPitch_c (Num 12) (Num 0))" one_clip] s
  have b: "invoke (OnClip 0 (setPitch_c (Num 12) (Num 0))) one_clip = one_clip"
    by auto
  show ?thesis
    using a b s unfolding m
    by (simp add: silent_def one_track_fields new_track_def)
qed

section \<open>Sends and parameters in batches\<close>

lemma if_fun_upd: "(\<lambda>a. if a = n then v else f a) = f(n := v)"
  by auto

lemma Track_send_step_world:
  "Track_send_step r n v w =
     w\<lparr>trackH := (trackH w)(r := (trackH w r)\<lparr>t_sends := (t_sends (trackH w r))(n := v)\<rparr>),
       events := events w @ send_events (TrackSink r) ''track:'' (t_id (trackH w r))
                   (t_sends (trackH w r)) [(n, v)]\<rparr>"
  by (simp add: Track_send_step_def Track_emitEvent_def prim_defs Let_def)

lemma length_send_events: "length (send_events k pre i tbl ps) = 2 * length ps"
  by (induction ps arbitrary: tbl) auto

lemma sends_after_snoc: "sends_after tbl (ps @ [(m, u)]) = (sends_after tbl ps)(m := u)"
  by (simp add: sends_after_def)

lemma sends_after_last:
  "map_of (rev ps) n = Some v \<Longrightarrow> sends_after tbl ps n = v"
proof (induction ps rule: rev_induct)
  case Nil
  then show ?case
    by simp
next
  case (snoc p ps)
  obtain m u where p: "p = (m, u)"
    by (cases p)
  from snoc show ?case
    by (simp add: p sends_after_snoc split: if_splits)
qed

lemma Track_send_loop_pairs:
  "events (Track_send_loop r (pairs_tail ps) w) =
     events w @ send_events (TrackSink r) ''track:'' (t_id (trackH w r)) (t_sends (trackH w r)) ps
   \<and> t_sends (trackH (Track_send_loop r (pairs_tail ps) w) r) = sends_after (t_sends (trackH w r)) ps
   \<and> t_id (trackH (Track_send_loop r (pairs_tail ps) w) r) = t_id (trackH w r)"
proof (induction ps arbitrary: w)
  case Nil
  show ?case
    by (simp add: pairs_tail_def sends_after_def)
next
  case (Cons p ps)
  obtain n v where p: "p = (n, v)"
    by (cases p)
  have tail: "pairs_tail (p # ps) = n # v # pairs_tail ps"
    by (simp add: pairs_tail_def p)
  show ?case
    unfolding tail Track_send_loop.simps
    by (simp add: Cons.IH Track_send_step_world p sends_after_def if_fun_upd)
qed

lemma Return_send_step_world:
  "Return_send_step r n v w =
     w\<lparr>returnH := (returnH w)(r := (returnH w r)\<lparr>r_sends := (r_sends (returnH w r))(n := v)\<rparr>),
       events := events w @ send_events (ReturnSink r) ''return:'' (r_id (returnH w r))
                   (r_sends (returnH w r)) [(n, v)]\<rparr>"
  by (simp add: Return_send_step_def Return_emitEvent_def prim_defs Let_def)

lemma Return_send_loop_pairs:
  "events (Return_send_loop r (pairs_tail ps) w) =
     events w @ send_events (ReturnSink r) ''return:'' (r_id (returnH w r))
                  (r_sends (returnH w r)) ps
   \<and> r_sends (returnH (Return_send_loop r (pairs_tail ps) w) r) =
       sends_after (r_sends (returnH w r)) ps
   \<and> r_id (returnH (Return_send_loop r (pairs_tail ps) w) r) = r_id (returnH w r)"
proof (induction ps arbitrary: w)
  case Nil
  show ?case
    by (simp add: pairs_tail_def sends_after_def)
next
  case (Cons p ps)
  obtain n v where p: "p = (n, v)"
    by (cases p)
  have tail: "pairs_tail (p # ps) = n # v # pairs_tail ps"
    by (simp add: pairs_tail_def p)
  show ?case
    unfolding tail Return_send_loop.simps
    by (simp add: Cons.IH Return_send_step_world p sends_after_def if_fun_upd)
qed

lemma update_absent: "map_of tbl k = None \<Longrightarrow> AList.update k x tbl = tbl @ [(k, x)]"
  by (induction tbl) auto

lemma ensure_param_world:
  "ensure_param r k w =
     w\<lparr>deviceH := (deviceH w)(r := (deviceH w r)\<lparr>d_params := param_made (d_params (deviceH w r)) k\<rparr>)\<rparr>"
  by (simp add: ensure_param_def param_made_def set_param_def upd_device_def update_absent)

lemma param_at_made: "param_at (param_made tbl k) k' = param_at tbl k'"
  by (auto simp add: param_at_def param_made_def empty_param_def map_add_def
      split: option.splits)

lemma update_absent_last:
  "map_of tbl k = None \<Longrightarrow> AList.update k x (tbl @ [(k, y)]) = tbl @ [(k, x)]"
  by (induction tbl) auto

lemma update_made: "AList.update k x (param_made tbl k) = AList.update k x tbl"
  by (simp add: param_made_def update_absent update_absent_last)

lemma device_head_tail_after [simp]:
  "device_head (device_after w r tbl evs) r = device_head w r"
  "device_tail (device_after w r tbl evs) r = device_tail w r"
  by (simp_all add: device_head_def device_tail_def device_after_def)
     (cases "d_track (deviceH w r)", simp_all)

lemma device_after_fields [simp]:
  "d_params (deviceH (device_after w r tbl evs) r) = tbl"
  "d_on (deviceH (device_after w r tbl evs) r) = d_on (deviceH w r)"
  "events (device_after w r tbl evs) = events w @ evs"
  by (simp_all add: device_after_def)

lemma device_after_twice [simp]:
  "device_after (device_after w r tbl evs) r tbl' evs' = device_after w r tbl' (evs @ evs')"
  by (simp add: device_after_def)

lemma device_after_same [simp]: "device_after w r (d_params (deviceH w r)) [] = w"
  by (simp add: device_after_def)

lemma Device_emitEvent_world:
  "Device_emitEvent r ev params w =
     (if ev = Str ''error'' \<and> Str ''error'' \<notin> set (d_on (deviceH w r))
      then (Inl UnhandledError, w)
      else (Inr (), w\<lparr>events := events w @
        [(DeviceSink r, Plain ev, params),
         (SongSink, Prefixed ''device:'' ev,
            Some (device_head w r @ (case params of None \<Rightarrow> [] | Some ps \<Rightarrow> ps)
                    @ device_tail w r))]\<rparr>))"
  by (simp add: Device_emitEvent_def device_head_def device_tail_def prim_defs Let_def)

lemma device_head_tail_frame [simp]:
  "device_head (w\<lparr>events := es\<rparr>) r = device_head w r"
  "device_tail (w\<lparr>events := es\<rparr>) r = device_tail w r"
  "device_head (w\<lparr>deviceH := (deviceH w)(r := (deviceH w r)\<lparr>d_params := ps\<rparr>)\<rparr>) r
     = device_head w r"
  "device_tail (w\<lparr>deviceH := (deviceH w)(r := (deviceH w r)\<lparr>d_params := ps\<rparr>)\<rparr>) r
     = device_tail w r"
  by (simp_all add: device_head_def device_tail_def) (cases "d_track (deviceH w r)", simp_all)+

lemma allParam_step_returns:
  "n \<noteq> Str ''error'' \<or> Str ''error'' \<in> set (d_on (deviceH w r))
     \<or> \<not> loose_ne (p_value (param_at (d_params (deviceH w r)) k)) v \<Longrightarrow>
   allParam_step r k v n w =
     (Inr (), device_after w r (param_set (d_params (deviceH w r)) k v n)
        (param_events r (device_head w r) (device_tail w r) (d_params (deviceH w r)) [(k, v, n)]))"
  by (auto simp add: allParam_step_def ensure_param_world param_at_made update_made
      Device_emitEvent_world set_param_def upd_device_def param_set_def param_change_def
      device_after_def Let_def)

lemma allParam_step_throws:
  "Str ''error'' \<notin> set (d_on (deviceH w r)) \<Longrightarrow>
   loose_ne (p_value (param_at (d_params (deviceH w r)) k)) v \<Longrightarrow>
   allParam_step r k v (Str ''error'') w =
     (Inl UnhandledError,
      device_after w r (param_made (d_params (deviceH w r)) k)
        (param_notice r (device_head w r) (device_tail w r) v (Str ''error'')
           (p_value (param_at (d_params (deviceH w r)) k))))"
  by (simp add: allParam_step_def ensure_param_world param_at_made
      Device_emitEvent_world param_notice_def device_after_def Let_def)

lemma triples_tail_Cons: "triples_tail ((k, v, n) # ts) = k # v # n # triples_tail ts"
  by (simp add: triples_tail_def)

lemma params_after_Cons:
  "params_after tbl ((k, v, n) # ts) = params_after (param_set tbl k v n) ts"
  by (simp add: params_after_def)

lemma allParam_loop_returns:
  "Str ''error'' \<in> set (d_on (deviceH w r)) \<or> Str ''error'' \<notin> set (names ts) \<Longrightarrow>
   allParam_loop r (triples_tail ts) w =
     (Inr (), device_after w r (params_after (d_params (deviceH w r)) ts)
        (param_events r (device_head w r) (device_tail w r) (d_params (deviceH w r)) ts))"
proof (induction ts arbitrary: w)
  case Nil
  show ?case
    by (simp add: triples_tail_def params_after_def)
next
  case (Cons t ts)
  obtain k v n where t: "t = (k, v, n)"
    by (cases t)
  let ?tbl = "d_params (deviceH w r)"
  let ?w = "device_after w r (param_set ?tbl k v n)
      (param_events r (device_head w r) (device_tail w r) ?tbl [(k, v, n)])"
  from Cons.prems have "n \<noteq> Str ''error'' \<or> Str ''error'' \<in> set (d_on (deviceH w r))"
    by (fastforce simp add: t names_def)
  then have step: "allParam_step r k v n w = (Inr (), ?w)"
    by (simp add: allParam_step_returns)
  from Cons.prems have "Str ''error'' \<in> set (d_on (deviceH ?w r)) \<or> Str ''error'' \<notin> set (names ts)"
    by (fastforce simp add: t names_def)
  from Cons.IH [OF this] show ?case
    by (simp add: t triples_tail_Cons params_after_Cons step)
qed

lemma allParam_loop_throws:
  "Str ''error'' \<notin> set (d_on (deviceH w r)) \<Longrightarrow> Str ''error'' \<notin> set (names ts) \<Longrightarrow>
   loose_ne (p_value (param_at (params_after (d_params (deviceH w r)) ts) k)) v \<Longrightarrow>
   allParam_loop r (triples_tail (ts @ (k, v, Str ''error'') # us)) w =
     (Inl UnhandledError,
      device_after w r (param_made (params_after (d_params (deviceH w r)) ts) k)
        (param_events r (device_head w r) (device_tail w r) (d_params (deviceH w r)) ts
         @ param_notice r (device_head w r) (device_tail w r) v (Str ''error'')
             (p_value (param_at (params_after (d_params (deviceH w r)) ts) k))))"
proof (induction ts arbitrary: w)
  case Nil
  then show ?case
    by (simp add: triples_tail_Cons params_after_def allParam_step_throws)
next
  case (Cons t ts)
  obtain k' v' n' where t: "t = (k', v', n')"
    by (cases t)
  let ?tbl = "d_params (deviceH w r)"
  let ?w = "device_after w r (param_set ?tbl k' v' n')
      (param_events r (device_head w r) (device_tail w r) ?tbl [(k', v', n')])"
  from Cons.prems have "n' \<noteq> Str ''error''"
    by (fastforce simp add: t names_def)
  then have step: "allParam_step r k' v' n' w = (Inr (), ?w)"
    by (simp add: allParam_step_returns)
  have a: "Str ''error'' \<notin> set (d_on (deviceH ?w r))" "Str ''error'' \<notin> set (names ts)"
    using Cons.prems by (simp_all add: t names_def)
  have b: "loose_ne (p_value (param_at (params_after (d_params (deviceH ?w r)) ts) k)) v"
    using Cons.prems by (simp add: t params_after_Cons)
  from Cons.IH [OF a b] show ?case
    by (simp add: t triples_tail_Cons params_after_Cons step)
qed

lemma device_match_filter:
  "device_match w r path \<Longrightarrow> device_filter r (path @ rest) w = Some rest"
  by (auto simp add: device_match_def device_filter_def loose_ne_def arg_def Let_def
      split: if_splits list.splits)

lemma Device_paramListener_returns:
  "device_filter r args w = Some (k # v # n # rest) \<Longrightarrow>
   n \<noteq> Str ''error'' \<or> Str ''error'' \<in> set (d_on (deviceH w r)) \<Longrightarrow>
   Device_paramListener r args w =
     (Inr (), device_after w r (param_set (d_params (deviceH w r)) k v n)
        (param_change r (device_head w r) (device_tail w r) v n
           (p_value (param_at (d_params (deviceH w r)) k))))"
  by (auto simp add: Device_paramListener_def ensure_param_world param_at_made update_made
      Device_emitEvent_world set_param_def upd_device_def param_set_def param_change_def
      device_after_def arg_def Let_def)

lemma Device_paramListener_throws:
  "device_filter r args w = Some (k # v # Str ''error'' # rest) \<Longrightarrow>
   Str ''error'' \<notin> set (d_on (deviceH w r)) \<Longrightarrow>
   Device_paramListener r args w =
     (Inl UnhandledError,
      device_after w r (param_made (d_params (deviceH w r)) k)
        (param_notice r (device_head w r) (device_tail w r) v (Str ''error'')
           (p_value (param_at (d_params (deviceH w r)) k))))"
  by (simp add: Device_paramListener_def ensure_param_world param_at_made
      Device_emitEvent_world param_notice_def device_after_def arg_def Let_def)

lemma params_after_snoc:
  "params_after tbl (ts @ [(k, v, n)]) = param_set (params_after tbl ts) k v n"
  by (simp add: params_after_def)

lemma param_at_param_set:
  "param_at (param_set tbl k v n) k' =
     (if k' = k then (param_at tbl k)\<lparr>p_id := k, p_value := v, p_name := n\<rparr> else param_at tbl k')"
  by (simp add: param_at_def param_set_def update_conv')

lemma params_after_last:
  "map_of (rev (map (\<lambda>(k, v, n). (k, (v, n))) ts)) k = Some (v, n) \<Longrightarrow>
   p_id (param_at (params_after tbl ts) k) = k
   \<and> p_value (param_at (params_after tbl ts) k) = v
   \<and> p_name (param_at (params_after tbl ts) k) = n"
proof (induction ts rule: rev_induct)
  case Nil
  then show ?case
    by simp
next
  case (snoc t ts)
  obtain k' v' n' where t: "t = (k', v', n')"
    by (cases t)
  from snoc show ?case
    by (simp add: t params_after_snoc param_at_param_set split: if_splits)
qed

text \<open>
  C6, amended, for messages whose indices are numbers. A send message for the matching
  track or return is handled pair by pair: each pair gives one local and one global
  \<open>send\<close> event with the level stored just before that pair as \<open>prev\<close>,
  two events for each pair, and afterwards an index holds the last level the message gave
  for it. An \<open>allparam\<close> message for the matching device, whose values are
  numbers, is handled triple by triple: a triple whose value differs from the stored one
  gives a \<open>param\<close> event and an event named after the parameter, each local and
  global, a triple whose value is the stored one gives no event, and afterwards an index
  holds the last value and name the message gave for it. A \<open>param\<close> message is
  one triple: only its first index, value and name are read, and its events are emitted
  whatever the stored value. This is so where no parameter of the message is named
  \<open>error\<close> or the application listens for \<open>error\<close> on the device.
  Where it does not listen, a triple named \<open>error\<close> that is to emit, after
  triples none of which is named \<open>error\<close>, makes the listener throw: the
  triples before it have been handled, the two \<open>param\<close> events of the triple
  have been emitted, the entry of its index has been made but not assigned, and the
  triples after it are not read. The indices are numbers, and so are the values of an
  \<open>allparam\<close> message, with no string stored as a value in the table: that is
  where the model of \<open>==\<close> and of property keys is exact, and a table of sends
  is read at numbers.
\<close>

theorem batches_are_handled_by_strides:
  "(\<not> loose_ne i (t_id (trackH w r)) \<and> plain_pairs ps \<longrightarrow>
      events (Track_sendListener r (i # pairs_tail ps) w) =
        events w @ send_events (TrackSink r) ''track:'' (t_id (trackH w r))
                     (t_sends (trackH w r)) ps
      \<and> t_sends (trackH (Track_sendListener r (i # pairs_tail ps) w) r) (Num x) =
          sends_after (t_sends (trackH w r)) ps (Num x))
   \<and> (\<not> loose_ne i (r_id (returnH w r)) \<and> plain_pairs ps \<longrightarrow>
      events (Return_sendListener r (i # pairs_tail ps) w) =
        events w @ send_events (ReturnSink r) ''return:'' (r_id (returnH w r))
                     (r_sends (returnH w r)) ps
      \<and> r_sends (returnH (Return_sendListener r (i # pairs_tail ps) w) r) (Num x) =
          sends_after (r_sends (returnH w r)) ps (Num x))
   \<and> (device_match w r path \<and> plain_table (d_params (deviceH w r)) \<and> plain_triples ts
        \<and> (Str ''error'' \<in> set (d_on (deviceH w r)) \<or> Str ''error'' \<notin> set (names ts)) \<longrightarrow>
      Device_allParamListener r (path @ triples_tail ts) w =
        (Inr (), device_after w r (params_after (d_params (deviceH w r)) ts)
           (param_events r (device_head w r) (device_tail w r) (d_params (deviceH w r)) ts)))
   \<and> (device_match w r path \<and> plain_table (d_params (deviceH w r)) \<and> plain_triples ts
        \<and> is_num k \<and> is_num v
        \<and> Str ''error'' \<notin> set (d_on (deviceH w r)) \<and> Str ''error'' \<notin> set (names ts)
        \<and> loose_ne (p_value (param_at (params_after (d_params (deviceH w r)) ts) k)) v \<longrightarrow>
      Device_allParamListener r (path @ triples_tail (ts @ (k, v, Str ''error'') # us)) w =
        (Inl UnhandledError,
         device_after w r (param_made (params_after (d_params (deviceH w r)) ts) k)
           (param_events r (device_head w r) (device_tail w r) (d_params (deviceH w r)) ts
            @ param_notice r (device_head w r) (device_tail w r) v (Str ''error'')
                (p_value (param_at (params_after (d_params (deviceH w r)) ts) k)))))
   \<and> (device_match w r path \<and> plain_table (d_params (deviceH w r)) \<and> is_num k
        \<and> (Str ''error'' \<in> set (d_on (deviceH w r)) \<or> n \<noteq> Str ''error'') \<longrightarrow>
      Device_paramListener r (path @ k # v # n # rest) w =
        (Inr (), device_after w r (param_set (d_params (deviceH w r)) k v n)
           (param_change r (device_head w r) (device_tail w r) v n
              (p_value (param_at (d_params (deviceH w r)) k)))))
   \<and> (device_match w r path \<and> plain_table (d_params (deviceH w r)) \<and> is_num k
        \<and> Str ''error'' \<notin> set (d_on (deviceH w r)) \<longrightarrow>
      Device_paramListener r (path @ k # v # Str ''error'' # rest) w =
        (Inl UnhandledError,
         device_after w r (param_made (d_params (deviceH w r)) k)
           (param_notice r (device_head w r) (device_tail w r) v (Str ''error'')
              (p_value (param_at (d_params (deviceH w r)) k)))))
   \<and> length (send_events sk pre si tbl ps) = 2 * length ps
   \<and> (map_of (rev ps) sn = Some sv \<longrightarrow> sends_after tbl ps sn = sv)
   \<and> (map_of (rev (map (\<lambda>(k, v, n). (k, (v, n))) ts)) pk = Some (pv, pn) \<longrightarrow>
        p_id (param_at (params_after ptbl ts) pk) = pk
        \<and> p_value (param_at (params_after ptbl ts) pk) = pv
        \<and> p_name (param_at (params_after ptbl ts) pk) = pn)"
proof (intro conjI impI; (elim conjE)?)
  assume "\<not> loose_ne i (t_id (trackH w r))"
  then have l: "Track_sendListener r (i # pairs_tail ps) w = Track_send_loop r (pairs_tail ps) w"
    by (simp add: Track_sendListener_def arg_def)
  show "events (Track_sendListener r (i # pairs_tail ps) w) =
        events w @ send_events (TrackSink r) ''track:'' (t_id (trackH w r))
                     (t_sends (trackH w r)) ps"
    by (simp add: l Track_send_loop_pairs)
  show "t_sends (trackH (Track_sendListener r (i # pairs_tail ps) w) r) (Num x) =
          sends_after (t_sends (trackH w r)) ps (Num x)"
    by (simp add: l Track_send_loop_pairs)
next
  assume "\<not> loose_ne i (r_id (returnH w r))"
  then have l: "Return_sendListener r (i # pairs_tail ps) w = Return_send_loop r (pairs_tail ps) w"
    by (simp add: Return_sendListener_def arg_def)
  show "events (Return_sendListener r (i # pairs_tail ps) w) =
        events w @ send_events (ReturnSink r) ''return:'' (r_id (returnH w r))
                     (r_sends (returnH w r)) ps"
    by (simp add: l Return_send_loop_pairs)
  show "r_sends (returnH (Return_sendListener r (i # pairs_tail ps) w) r) (Num x) =
          sends_after (r_sends (returnH w r)) ps (Num x)"
    by (simp add: l Return_send_loop_pairs)
next
  assume "device_match w r path"
    and "Str ''error'' \<in> set (d_on (deviceH w r)) \<or> Str ''error'' \<notin> set (names ts)"
  then show "Device_allParamListener r (path @ triples_tail ts) w =
        (Inr (), device_after w r (params_after (d_params (deviceH w r)) ts)
           (param_events r (device_head w r) (device_tail w r) (d_params (deviceH w r)) ts))"
    by (simp add: Device_allParamListener_def device_match_filter allParam_loop_returns)
next
  assume "device_match w r path"
    and "Str ''error'' \<notin> set (d_on (deviceH w r))" "Str ''error'' \<notin> set (names ts)"
    and "loose_ne (p_value (param_at (params_after (d_params (deviceH w r)) ts) k)) v"
  then show "Device_allParamListener r (path @ triples_tail (ts @ (k, v, Str ''error'') # us)) w =
        (Inl UnhandledError,
         device_after w r (param_made (params_after (d_params (deviceH w r)) ts) k)
           (param_events r (device_head w r) (device_tail w r) (d_params (deviceH w r)) ts
            @ param_notice r (device_head w r) (device_tail w r) v (Str ''error'')
                (p_value (param_at (params_after (d_params (deviceH w r)) ts) k))))"
    by (simp add: Device_allParamListener_def device_match_filter allParam_loop_throws)
next
  assume m: "device_match w r path"
    and e: "Str ''error'' \<in> set (d_on (deviceH w r)) \<or> n \<noteq> Str ''error''"
  have f: "device_filter r (path @ k # v # n # rest) w = Some (k # v # n # rest)"
    using m by (rule device_match_filter)
  show "Device_paramListener r (path @ k # v # n # rest) w =
        (Inr (), device_after w r (param_set (d_params (deviceH w r)) k v n)
           (param_change r (device_head w r) (device_tail w r) v n
              (p_value (param_at (d_params (deviceH w r)) k))))"
    using Device_paramListener_returns [OF f] e by blast
next
  assume m: "device_match w r path" and e: "Str ''error'' \<notin> set (d_on (deviceH w r))"
  have f: "device_filter r (path @ k # v # Str ''error'' # rest) w =
      Some (k # v # Str ''error'' # rest)"
    using m by (rule device_match_filter)
  show "Device_paramListener r (path @ k # v # Str ''error'' # rest) w =
        (Inl UnhandledError,
         device_after w r (param_made (d_params (deviceH w r)) k)
           (param_notice r (device_head w r) (device_tail w r) v (Str ''error'')
              (p_value (param_at (d_params (deviceH w r)) k))))"
    by (rule Device_paramListener_throws [OF f e])
next
  show "length (send_events sk pre si tbl ps) = 2 * length ps"
    by (rule length_send_events)
next
  assume "map_of (rev ps) sn = Some sv"
  then show "sends_after tbl ps sn = sv"
    by (rule sends_after_last)
next
  assume m: "map_of (rev (map (\<lambda>(k, v, n). (k, (v, n))) ts)) pk = Some (pv, pn)"
  show "p_id (param_at (params_after ptbl ts) pk) = pk"
    using params_after_last [OF m] by simp
  show "p_value (param_at (params_after ptbl ts) pk) = pv"
    using params_after_last [OF m] by simp
  show "p_name (param_at (params_after ptbl ts) pk) = pn"
    using params_after_last [OF m] by simp
qed

lemma device_match_filter_Cons:
  "device_match w r [a, b] \<Longrightarrow> device_filter r (a # b # rest) w = Some rest"
  "device_match w r [a] \<Longrightarrow> device_filter r (a # rest) w = Some rest"
  using device_match_filter [of w r "[a, b]" rest] device_match_filter [of w r "[a]" rest]
  by simp_all

lemma one_device_device:
  "d_params (deviceH one_device 0) = []"
  "d_on (deviceH one_device 0) = []"
  "device_head one_device 0 = [(''id'', Num 3), (''type'', Str ''track'')]"
  "device_tail one_device 0 = [(''trackId'', Num 0)]"
  "device_match one_device 0 [Num 0, Num 3]"
  by (simp_all add: device_head_def device_tail_def device_match_def one_device_fields
      new_device_def new_track_def)

lemma listening_device:
  "d_params (deviceH (Device_on 0 (Str ''error'') one_device) 0) = []"
  "d_on (deviceH (Device_on 0 (Str ''error'') one_device) 0) = [Str ''error'']"
  "device_head (Device_on 0 (Str ''error'') one_device) 0 = [(''id'', Num 3), (''type'', Str ''track'')]"
  "device_tail (Device_on 0 (Str ''error'') one_device) 0 = [(''trackId'', Num 0)]"
  "device_match (Device_on 0 (Str ''error'') one_device) 0 [Num 0, Num 3]"
  by (simp_all add: Device_on_def upd_device_def device_head_def device_tail_def
      device_match_def one_device_fields new_device_def new_track_def)

lemma master_device_device:
  "d_params (deviceH master_device 0) = []"
  "d_on (deviceH master_device 0) = []"
  "device_head master_device 0 = [(''id'', Num 2), (''type'', Str ''master'')]"
  "device_tail master_device 0 = []"
  "device_match master_device 0 [Num 2]"
  by (simp_all add: device_head_def device_tail_def device_match_def master_device_fields
      new_device_def)

lemma tuned_world:
  "tuned = device_after one_device 0
     [(Num 0, \<lparr>p_id = Num 0, p_value = Num 1, p_name = Str ''Device On'', p_min = Undef, p_max = Undef\<rparr>),
      (Num 1, \<lparr>p_id = Num 1, p_value = Num 0.5, p_name = Str ''Dry/Wet'', p_min = Undef, p_max = Undef\<rparr>)]
     (param_change 0 [(''id'', Num 3), (''type'', Str ''track'')] [(''trackId'', Num 0)]
        (Num 1) (Str ''Device On'') Undef
      @ param_change 0 [(''id'', Num 3), (''type'', Str ''track'')] [(''trackId'', Num 0)]
        (Num 0.5) (Str ''Dry/Wet'') Undef)"
proof -
  let ?ts = "[(Num 0, Num 1, Str ''Device On''), (Num 1, Num 0.5, Str ''Dry/Wet'')]"
  have "tuned = snd (Device_allParamListener 0 ([Num 0, Num 3] @ triples_tail ?ts) one_device)"
    by (simp add: tuned_def deliver_def listeners_subs_at subs_at_append one_device_fields
        allparam_listeners triples_tail_def split: prod.split sum.split)
  also have "Device_allParamListener 0 ([Num 0, Num 3] @ triples_tail ?ts) one_device =
      (Inr (), device_after one_device 0 (params_after (d_params (deviceH one_device 0)) ?ts)
         (param_events 0 (device_head one_device 0) (device_tail one_device 0)
            (d_params (deviceH one_device 0)) ?ts))"
    by (simp add: Device_allParamListener_def device_match_filter_Cons one_device_device
        allParam_loop_returns names_def)
  finally show ?thesis
    by (simp add: one_device_device params_after_def param_set_def param_at_def
        empty_param_def loose_ne_def)
qed

lemma tuned_device:
  "device_head tuned 0 = [(''id'', Num 3), (''type'', Str ''track'')]"
  "device_tail tuned 0 = [(''trackId'', Num 0)]"
  "d_on (deviceH tuned 0) = []"
  by (simp_all add: tuned_world one_device_device)

lemma tuned_match:
  "device_match tuned 0 [Num 0, Num 3]"
  "subs tuned = song_subs @ track_subs 0 @ track_device_subs 0"
  by (simp_all add: tuned_world one_device_fields device_match_def
      device_after_def new_device_def new_track_def)

lemma deliver_tuned:
  "deliver ''/live/device/allparam'' args tuned = snd (Device_allParamListener 0 args tuned)"
  "deliver ''/live/device/param'' args tuned = snd (Device_paramListener 0 args tuned)"
  by (simp_all add: deliver_def listeners_subs_at subs_at_append tuned_match allparam_listeners
      param_listeners split: prod.split sum.split)

text \<open>
  C6, as stated, fails twice at a device whose parameter 0 is 1 and whose parameter 1 is
  0.5. An \<open>allparam\<close> message that gives parameter 0 as 1 emits no event for
  that index. A \<open>param\<close> message with two triples leaves parameter 1, the index
  of its second triple, at 0.5 and not at the 0.9 received.
\<close>

theorem unchanged_parameter_emits_nothing_and_param_reads_one_triple:
  "p_value (param_at (d_params (deviceH tuned 0)) (Num 0)) = Num 1
   \<and> events (deliver ''/live/device/allparam'' [Num 0, Num 3, Num 0, Num 1, Str ''Device On'']
               tuned) = events tuned
   \<and> p_value (param_at (d_params (deviceH tuned 0)) (Num 1)) = Num 0.5
   \<and> p_value (param_at (d_params (deviceH
         (deliver ''/live/device/param''
            [Num 0, Num 3, Num 0, Num 0, Str ''Device On'', Num 1, Num 0.9, Str ''Dry/Wet'']
            tuned) 0)) (Num 1)) = Num 0.5"
proof -
  let ?tbl = "d_params (deviceH tuned 0)"
  let ?ts = "[(Num 0, Num 1, Str ''Device On'')]"
  have a: "Device_allParamListener 0 [Num 0, Num 3, Num 0, Num 1, Str ''Device On''] tuned =
      (Inr (), device_after tuned 0 (params_after ?tbl ?ts)
         (param_events 0 (device_head tuned 0) (device_tail tuned 0) ?tbl ?ts))"
    using allParam_loop_returns [of tuned 0 ?ts]
    by (simp add: Device_allParamListener_def device_match_filter_Cons tuned_match
        triples_tail_def names_def)
  have b: "Device_paramListener 0
      [Num 0, Num 3, Num 0, Num 0, Str ''Device On'', Num 1, Num 0.9, Str ''Dry/Wet''] tuned =
      (Inr (), device_after tuned 0 (param_set ?tbl (Num 0) (Num 0) (Str ''Device On''))
         (param_change 0 (device_head tuned 0) (device_tail tuned 0) (Num 0) (Str ''Device On'')
            (p_value (param_at ?tbl (Num 0)))))"
    by (rule Device_paramListener_returns)
       (simp_all add: device_match_filter_Cons tuned_match)
  show ?thesis
    by (simp add: deliver_tuned a b tuned_params param_set_def param_at_def loose_ne_def)
qed

text \<open>
  The amended statement at a track, a return and three devices: three pairs for a track
  and two for a return; three triples for a device on a track, the last of them unchanged;
  a triple named \<open>error\<close> between two others, where the application does not
  listen and where it does; one triple for a device on the master track; and a
  \<open>param\<close> message, named \<open>Dry/Wet\<close> and named \<open>error\<close>.
\<close>

theorem batches_are_handled_by_strides_witness:
  "events (Track_sendListener 0 [Num 0, Num 0, Num 0.5, Num 1, Num 0.7, Num 0, Num 0.6] one_track) =
     events one_track @
       [(TrackSink 0, Plain (Str ''send''),
           Some [(''num'', Num 0), (''value'', Num 0.5), (''prev'', Undef)]),
        (SongSink, Prefixed ''track:'' (Str ''send''),
           Some [(''id'', Num 0), (''num'', Num 0), (''value'', Num 0.5), (''prev'', Undef)]),
        (TrackSink 0, Plain (Str ''send''),
           Some [(''num'', Num 1), (''value'', Num 0.7), (''prev'', Undef)]),
        (SongSink, Prefixed ''track:'' (Str ''send''),
           Some [(''id'', Num 0), (''num'', Num 1), (''value'', Num 0.7), (''prev'', Undef)]),
        (TrackSink 0, Plain (Str ''send''),
           Some [(''num'', Num 0), (''value'', Num 0.6), (''prev'', Num 0.5)]),
        (SongSink, Prefixed ''track:'' (Str ''send''),
           Some [(''id'', Num 0), (''num'', Num 0), (''value'', Num 0.6), (''prev'', Num 0.5)])]
   \<and> t_sends (trackH (Track_sendListener 0
          [Num 0, Num 0, Num 0.5, Num 1, Num 0.7, Num 0, Num 0.6] one_track) 0) (Num 0) = Num 0.6
   \<and> length (events (Return_sendListener 0 [Num 0, Num 0, Num 0.5, Num 1, Num 0.7] one_return)) =
       length (events one_return) + 4
   \<and> r_sends (returnH (Return_sendListener 0 [Num 0, Num 0, Num 0.5, Num 1, Num 0.7] one_return) 0)
        (Num 1) = Num 0.7
   \<and> Device_allParamListener 0
        [Num 0, Num 3, Num 0, Num 1, Str ''Device On'', Num 1, Num 0.5, Str ''Dry/Wet'',
         Num 0, Num 1, Str ''Device On''] one_device =
       (Inr (), device_after one_device 0
          [(Num 0, \<lparr>p_id = Num 0, p_value = Num 1, p_name = Str ''Device On'',
                     p_min = Undef, p_max = Undef\<rparr>),
           (Num 1, \<lparr>p_id = Num 1, p_value = Num 0.5, p_name = Str ''Dry/Wet'',
                     p_min = Undef, p_max = Undef\<rparr>)]
          (param_change 0 [(''id'', Num 3), (''type'', Str ''track'')] [(''trackId'', Num 0)]
             (Num 1) (Str ''Device On'') Undef
           @ param_change 0 [(''id'', Num 3), (''type'', Str ''track'')] [(''trackId'', Num 0)]
             (Num 0.5) (Str ''Dry/Wet'') Undef))
   \<and> p_value (param_at (d_params (deviceH (snd (Device_allParamListener 0
          [Num 0, Num 3, Num 0, Num 1, Str ''Device On'', Num 1, Num 0.5, Str ''Dry/Wet'',
           Num 0, Num 1, Str ''Device On''] one_device)) 0)) (Num 1)) = Num 0.5
   \<and> Device_allParamListener 0
        [Num 0, Num 3, Num 0, Num 1, Str ''Device On'', Num 1, Num 0.5, Str ''error'',
         Num 2, Num 0.7, Str ''Gain''] one_device =
       (Inl UnhandledError, device_after one_device 0
          [(Num 0, \<lparr>p_id = Num 0, p_value = Num 1, p_name = Str ''Device On'',
                     p_min = Undef, p_max = Undef\<rparr>),
           (Num 1, empty_param)]
          (param_change 0 [(''id'', Num 3), (''type'', Str ''track'')] [(''trackId'', Num 0)]
             (Num 1) (Str ''Device On'') Undef
           @ param_notice 0 [(''id'', Num 3), (''type'', Str ''track'')] [(''trackId'', Num 0)]
             (Num 0.5) (Str ''error'') Undef))
   \<and> Device_allParamListener 0
        [Num 0, Num 3, Num 0, Num 1, Str ''Device On'', Num 1, Num 0.5, Str ''error'']
        (Device_on 0 (Str ''error'') one_device) =
       (Inr (), device_after (Device_on 0 (Str ''error'') one_device) 0
          [(Num 0, \<lparr>p_id = Num 0, p_value = Num 1, p_name = Str ''Device On'',
                     p_min = Undef, p_max = Undef\<rparr>),
           (Num 1, \<lparr>p_id = Num 1, p_value = Num 0.5, p_name = Str ''error'',
                     p_min = Undef, p_max = Undef\<rparr>)]
          (param_change 0 [(''id'', Num 3), (''type'', Str ''track'')] [(''trackId'', Num 0)]
             (Num 1) (Str ''Device On'') Undef
           @ param_change 0 [(''id'', Num 3), (''type'', Str ''track'')] [(''trackId'', Num 0)]
             (Num 0.5) (Str ''error'') Undef))
   \<and> Device_allParamListener 0 [Num 2, Num 0, Num 1, Str ''Device On''] master_device =
       (Inr (), device_after master_device 0
          [(Num 0, \<lparr>p_id = Num 0, p_value = Num 1, p_name = Str ''Device On'',
                     p_min = Undef, p_max = Undef\<rparr>)]
          (param_change 0 [(''id'', Num 2), (''type'', Str ''master'')] []
             (Num 1) (Str ''Device On'') Undef))
   \<and> Device_paramListener 0 [Num 0, Num 3, Num 1, Num 0.9, Str ''Dry/Wet''] tuned =
       (Inr (), device_after tuned 0
          [(Num 0, \<lparr>p_id = Num 0, p_value = Num 1, p_name = Str ''Device On'',
                     p_min = Undef, p_max = Undef\<rparr>),
           (Num 1, \<lparr>p_id = Num 1, p_value = Num 0.9, p_name = Str ''Dry/Wet'',
                     p_min = Undef, p_max = Undef\<rparr>)]
          (param_change 0 [(''id'', Num 3), (''type'', Str ''track'')] [(''trackId'', Num 0)]
             (Num 0.9) (Str ''Dry/Wet'') (Num 0.5)))
   \<and> Device_paramListener 0 [Num 0, Num 3, Num 1, Num 0.9, Str ''error''] tuned =
       (Inl UnhandledError, device_after tuned 0 (d_params (deviceH tuned 0))
          (param_notice 0 [(''id'', Num 3), (''type'', Str ''track'')] [(''trackId'', Num 0)]
             (Num 0.9) (Str ''error'') (Num 0.5)))"
proof -
  let ?ps = "[(Num 0, Num 0.5), (Num 1, Num 0.7), (Num 0, Num 0.6)]"
  let ?qs = "[(Num 0, Num 0.5), (Num 1, Num 0.7)]"
  let ?ts = "[(Num 0, Num 1, Str ''Device On''), (Num 1, Num 0.5, Str ''Dry/Wet''),
              (Num 0, Num 1, Str ''Device On'')]"
  let ?us = "[(Num 0, Num 1, Str ''Device On'')]"
  let ?vs = "[(Num 0, Num 1, Str ''Device On''), (Num 1, Num 0.5, Str ''error'')]"
  let ?on = "Device_on 0 (Str ''error'') one_device"
  note strides = batches_are_handled_by_strides
  have t: "\<not> loose_ne (Num 0) (t_id (trackH one_track 0))"
    by (simp add: one_track_fields new_track_def loose_ne_def)
  have r: "\<not> loose_ne (Num 0) (r_id (returnH one_return 0))"
    by (simp add: one_return_fields new_return_def loose_ne_def)
  have plain: "plain_pairs ?ps" "plain_pairs ?qs" "plain_triples ?ts" "plain_triples ?us"
    "plain_triples ?vs" "plain_table []" "plain_table (d_params (deviceH tuned 0))"
    by (simp_all add: plain_pairs_def plain_triples_def plain_table_def tuned_params)
  have s: "map_of (rev ?ps) (Num 0) = Some (Num 0.6)" "map_of (rev ?qs) (Num 1) = Some (Num 0.7)"
    by simp_all
  from strides [where i = "Num 0" and w = one_track and r = 0 and ps = ?ps and x = 0
       and tbl = "t_sends (trackH one_track 0)" and sn = "Num 0" and sv = "Num 0.6"] t plain s
  have a: "events (Track_sendListener 0 (Num 0 # pairs_tail ?ps) one_track) =
        events one_track @ send_events (TrackSink 0) ''track:'' (t_id (trackH one_track 0))
                     (t_sends (trackH one_track 0)) ?ps"
      "t_sends (trackH (Track_sendListener 0 (Num 0 # pairs_tail ?ps) one_track) 0) (Num 0)
        = Num 0.6"
    by simp_all
  from strides [where i = "Num 0" and w = one_return and r = 0 and ps = ?qs and x = 1
       and sk = "ReturnSink 0" and pre = "''return:''" and si = "Num 0"
       and tbl = "r_sends (returnH one_return 0)" and sn = "Num 1" and sv = "Num 0.7"] r plain s
  have b: "length (events (Return_sendListener 0 (Num 0 # pairs_tail ?qs) one_return)) =
        length (events one_return) + 4"
      "r_sends (returnH (Return_sendListener 0 (Num 0 # pairs_tail ?qs) one_return) 0) (Num 1)
        = Num 0.7"
    by simp_all
  from strides [where w = one_device and r = 0 and path = "[Num 0, Num 3]" and ts = ?ts]
  have c: "Device_allParamListener 0 ([Num 0, Num 3] @ triples_tail ?ts) one_device =
        (Inr (), device_after one_device 0 (params_after [] ?ts)
           (param_events 0 [(''id'', Num 3), (''type'', Str ''track'')] [(''trackId'', Num 0)] [] ?ts))"
    using plain by (simp add: one_device_device names_def)
  have m: "map_of (rev (map (\<lambda>(k, v, n). (k, (v, n))) ?ts)) (Num 1) = Some (Num 0.5, Str ''Dry/Wet'')"
    by simp
  from strides [where ts = ?ts and pk = "Num 1" and pv = "Num 0.5" and pn = "Str ''Dry/Wet''"
       and ptbl = "[]"] m
  have c': "p_value (param_at (params_after [] ?ts) (Num 1)) = Num 0.5"
    by simp
  from strides [where w = one_device and r = 0 and path = "[Num 0, Num 3]" and ts = ?us
       and k = "Num 1" and v = "Num 0.5" and us = "[(Num 2, Num 0.7, Str ''Gain'')]"]
  have d: "Device_allParamListener 0 ([Num 0, Num 3] @ triples_tail
          (?us @ (Num 1, Num 0.5, Str ''error'') # [(Num 2, Num 0.7, Str ''Gain'')])) one_device =
        (Inl UnhandledError,
         device_after one_device 0 (param_made (params_after [] ?us) (Num 1))
           (param_events 0 [(''id'', Num 3), (''type'', Str ''track'')] [(''trackId'', Num 0)] [] ?us
            @ param_notice 0 [(''id'', Num 3), (''type'', Str ''track'')] [(''trackId'', Num 0)]
                (Num 0.5) (Str ''error'')
                (p_value (param_at (params_after [] ?us) (Num 1)))))"
    using plain
    by (simp add: one_device_device names_def params_after_def param_set_def param_at_def
        empty_param_def loose_ne_def)
  from strides [where w = ?on and r = 0 and path = "[Num 0, Num 3]" and ts = ?vs]
  have e: "Device_allParamListener 0 ([Num 0, Num 3] @ triples_tail ?vs) ?on =
        (Inr (), device_after ?on 0 (params_after [] ?vs)
           (param_events 0 [(''id'', Num 3), (''type'', Str ''track'')] [(''trackId'', Num 0)] [] ?vs))"
    using plain by (simp add: listening_device)
  from strides [where w = master_device and r = 0 and path = "[Num 2]" and ts = ?us]
  have f: "Device_allParamListener 0 ([Num 2] @ triples_tail ?us) master_device =
        (Inr (), device_after master_device 0 (params_after [] ?us)
           (param_events 0 [(''id'', Num 2), (''type'', Str ''master'')] [] [] ?us))"
    using plain by (simp add: master_device_device names_def)
  from strides [where w = tuned and r = 0 and path = "[Num 0, Num 3]"
       and k = "Num 1" and v = "Num 0.9" and n = "Str ''Dry/Wet''" and rest = "[]"]
  have g: "Device_paramListener 0 ([Num 0, Num 3] @ [Num 1, Num 0.9, Str ''Dry/Wet'']) tuned =
        (Inr (), device_after tuned 0 (param_set (d_params (deviceH tuned 0)) (Num 1) (Num 0.9)
              (Str ''Dry/Wet''))
           (param_change 0 [(''id'', Num 3), (''type'', Str ''track'')] [(''trackId'', Num 0)]
              (Num 0.9) (Str ''Dry/Wet'') (p_value (param_at (d_params (deviceH tuned 0)) (Num 1)))))"
    using plain by (simp add: tuned_device tuned_match)
  from strides [where w = tuned and r = 0 and path = "[Num 0, Num 3]"
       and k = "Num 1" and v = "Num 0.9" and rest = "[]"]
  have h: "Device_paramListener 0 ([Num 0, Num 3] @ [Num 1, Num 0.9, Str ''error'']) tuned =
        (Inl UnhandledError,
         device_after tuned 0 (param_made (d_params (deviceH tuned 0)) (Num 1))
           (param_notice 0 [(''id'', Num 3), (''type'', Str ''track'')] [(''trackId'', Num 0)]
              (Num 0.9) (Str ''error'') (p_value (param_at (d_params (deviceH tuned 0)) (Num 1)))))"
    using plain by (simp add: tuned_device tuned_match)
  have tails: "Num 0 # pairs_tail ?ps = [Num 0, Num 0, Num 0.5, Num 1, Num 0.7, Num 0, Num 0.6]"
    "Num 0 # pairs_tail ?qs = [Num 0, Num 0, Num 0.5, Num 1, Num 0.7]"
    by (simp_all add: pairs_tail_def)
  have c'': "p_value (param_at (d_params (deviceH (snd (Device_allParamListener 0
      ([Num 0, Num 3] @ triples_tail ?ts) one_device)) 0)) (Num 1)) = Num 0.5"
    using c' unfolding c by simp
  show ?thesis
    using a b c c'' d e f g h unfolding tails
    by (simp add: triples_tail_def one_track_fields new_track_def tuned_params
        params_after_def param_set_def param_made_def param_at_def empty_param_def
        loose_ne_def)
qed

section \<open>Destroying a track, a clip, a device\<close>

lemma Clip_destroy_subs:
  assumes "distinct (subs w)"
  shows "set (subs (Clip_destroy r w)) = set (subs w) - set (clip_subs r)
         \<and> distinct (subs (Clip_destroy r w))"
  using assms
  by (auto simp add: Clip_destroy_def Let_def removeListener_def set_remove1_eq emit_def
      clip_subs_def)

lemma Device_destroy_subs:
  assumes "distinct (subs w)"
  shows "set (subs (Device_destroy r w)) = set (subs w) - set (device_subs (d_type (deviceH w r)) r)
         \<and> distinct (subs (Device_destroy r w))"
  using assms
  by (auto simp add: Device_destroy_def Device_emitEvent_def Let_def removeListener_def
      set_remove1_eq emit_def upd_device_def device_subs_def)

lemma Device_emitEvent_destroy:
  "fst (Device_emitEvent r (Str ''destroy'') params w) = Inr ()"
  by (simp add: Device_emitEvent_def Let_def)

lemma Clip_destroy_frame:
  "trackH (Clip_destroy r w) = trackH w" "deviceH (Clip_destroy r w) = deviceH w"
  by (simp_all add: Clip_destroy_def Let_def removeListener_def emit_def)

lemma Device_destroy_frame:
  "trackH (Device_destroy r w) = trackH w"
  "d_type (deviceH (Device_destroy r w) d) = d_type (deviceH w d)"
  by (simp_all add: Device_destroy_def Device_emitEvent_def Let_def removeListener_def emit_def
      upd_device_def)

lemma fold_Clip_destroy_subs:
  "distinct (subs w) \<Longrightarrow>
   set (subs (fold Clip_destroy cs w)) = set (subs w) - (\<Union>c\<in>set cs. set (clip_subs c))
   \<and> distinct (subs (fold Clip_destroy cs w))
   \<and> trackH (fold Clip_destroy cs w) = trackH w
   \<and> deviceH (fold Clip_destroy cs w) = deviceH w"
proof (induction cs arbitrary: w)
  case Nil
  then show ?case
    by simp
next
  case (Cons c cs)
  from Clip_destroy_subs [OF Cons.prems, of c]
  have d: "distinct (subs (Clip_destroy c w))"
    and s: "set (subs (Clip_destroy c w)) = set (subs w) - set (clip_subs c)"
    by simp_all
  from Cons.IH [OF d] show ?case
    by (auto simp add: s Clip_destroy_frame)
qed

lemma fold_Device_destroy_subs:
  "distinct (subs w) \<Longrightarrow>
   set (subs (fold Device_destroy ds w)) =
     set (subs w) - (\<Union>d\<in>set ds. set (device_subs (d_type (deviceH w d)) d))
   \<and> distinct (subs (fold Device_destroy ds w))
   \<and> trackH (fold Device_destroy ds w) = trackH w"
proof (induction ds arbitrary: w)
  case Nil
  then show ?case
    by simp
next
  case (Cons d ds)
  from Device_destroy_subs [OF Cons.prems, of d]
  have dd: "distinct (subs (Device_destroy d w))"
    and s: "set (subs (Device_destroy d w)) =
        set (subs w) - set (device_subs (d_type (deviceH w d)) d)"
    by simp_all
  from Cons.IH [OF dd] show ?case
    by (auto simp add: s Device_destroy_frame)
qed

lemma Track_own_subs_removed:
  assumes "distinct (subs w)"
  shows "set (subs (fold (\<lambda>(a, l). removeListener a l) (track_subs r) w)) =
           set (subs w) - set (track_subs r)
         \<and> distinct (subs (fold (\<lambda>(a, l). removeListener a l) (track_subs r) w))"
  using assms
  by (auto simp add: track_subs_def removeListener_def set_remove1_eq)

lemma Track_destroy_unfold:
  "Track_destroy r w =
     (let w10 = fold (\<lambda>(a, l). removeListener a l) (track_subs r)
                  (emit (TrackSink r) (Plain (Str ''destroy'')) None w);
          w11 = fold Clip_destroy (t_clips (trackH w10 r)) w10;
          w12 = upd_track r (\<lambda>t. t\<lparr>t_clips := []\<rparr>) w11;
          w13 = fold Device_destroy (t_devices (trackH w12 r)) w12
      in upd_track r (\<lambda>t. t\<lparr>t_devices := []\<rparr>) w13)"
  by (simp add: Track_destroy_def track_subs_def Let_def)

lemma Track_destroy_subs:
  assumes "distinct (subs w)"
  shows "set (subs (Track_destroy r w)) =
           set (subs w) - set (track_subs r)
             - (\<Union>c\<in>set (t_clips (trackH w r)). set (clip_subs c))
             - (\<Union>d\<in>set (t_devices (trackH w r)). set (device_subs (d_type (deviceH w d)) d))"
proof -
  let ?w1 = "emit (TrackSink r) (Plain (Str ''destroy'')) None w"
  let ?w10 = "fold (\<lambda>(a, l). removeListener a l) (track_subs r) ?w1"
  let ?w11 = "fold Clip_destroy (t_clips (trackH ?w10 r)) ?w10"
  let ?w12 = "upd_track r (\<lambda>t. t\<lparr>t_clips := []\<rparr>) ?w11"
  let ?w13 = "fold Device_destroy (t_devices (trackH ?w12 r)) ?w12"
  have d1: "distinct (subs ?w1)"
    using assms by (simp add: emit_def)
  have h10: "trackH ?w10 = trackH w" "deviceH ?w10 = deviceH w"
    by (simp_all add: track_subs_def removeListener_def emit_def)
  from Track_own_subs_removed [OF d1, of r]
  have s10: "set (subs ?w10) = set (subs w) - set (track_subs r)" and d10: "distinct (subs ?w10)"
    by (simp_all add: emit_def)
  from fold_Clip_destroy_subs [OF d10, of "t_clips (trackH ?w10 r)"]
  have s11: "set (subs ?w11) = set (subs ?w10) - (\<Union>c\<in>set (t_clips (trackH w r)). set (clip_subs c))"
    and d11: "distinct (subs ?w11)"
    and h11: "trackH ?w11 = trackH w" "deviceH ?w11 = deviceH w"
    by (simp_all add: h10)
  have d12: "distinct (subs ?w12)" and s12: "subs ?w12 = subs ?w11"
    and h12: "t_devices (trackH ?w12 r) = t_devices (trackH w r)" "deviceH ?w12 = deviceH w"
    using d11 by (simp_all add: upd_track_def h11)
  from fold_Device_destroy_subs [OF d12, of "t_devices (trackH ?w12 r)"]
  have s13: "set (subs ?w13) = set (subs ?w12)
      - (\<Union>d\<in>set (t_devices (trackH w r)). set (device_subs (d_type (deviceH w d)) d))"
    by (simp add: h12)
  have "subs (Track_destroy r w) = subs ?w13"
    by (simp add: Track_destroy_unfold Let_def upd_track_def)
  then show ?thesis
    by (simp add: s13 s12 s11 s10)
qed


text \<open>
  Where no listener is registered twice under one address, the \<open>destroy\<close> of a
  track removes each of its nine subscriptions and those of its clips and devices, and
  nothing else; that of a clip its seven; that of a device its three.
\<close>

theorem destroy_removes_every_subscription:
  assumes "distinct (subs w)"
  shows "set (subs (Track_destroy r w)) =
           set (subs w) - set (track_subs r)
             - (\<Union>c\<in>set (t_clips (trackH w r)). set (clip_subs c))
             - (\<Union>d\<in>set (t_devices (trackH w r)). set (device_subs (d_type (deviceH w d)) d))"
    and "set (subs (Clip_destroy r w)) = set (subs w) - set (clip_subs r)"
    and "set (subs (Device_destroy r w)) =
           set (subs w) - set (device_subs (d_type (deviceH w r)) r)"
  using assms
  by (simp_all add: Track_destroy_subs Clip_destroy_subs Device_destroy_subs)

lemma one_clip_subs: "subs one_clip = song_subs @ track_subs 0 @ clip_subs 0"
  by (simp add: one_clip_def deliver_def listeners_subs_at subs_at_append
      one_track_fields scenes_listeners Song_scenesListener_def Track_refreshClips_def
      Track_setNumScenes_def refreshClips_step_def Clip_def new_track_def
      arg_def array_set_def prim_defs Let_def)

lemma distinct_one_clip: "distinct (subs one_clip)"
  by (simp add: one_clip_subs song_subs_def track_subs_def clip_subs_def)

theorem destroy_removes_every_subscription_witness:
  "distinct (subs one_clip)
   \<and> (''/live/volume'', TrackL 0 T_volume) \<in> set (subs one_clip)
   \<and> (''/live/volume'', TrackL 0 T_volume) \<notin> set (subs (Track_destroy 0 one_clip))
   \<and> (''/live/clip/info'', ClipL 0 C_clipinfo) \<in> set (subs one_clip)
   \<and> (''/live/clip/info'', ClipL 0 C_clipinfo) \<notin> set (subs (Track_destroy 0 one_clip))
   \<and> (''/live/clip/info'', ClipL 0 C_clipinfo) \<notin> set (subs (Clip_destroy 0 one_clip))
   \<and> (''/live/tracks'', SongL S_tracks) \<in> set (subs (Track_destroy 0 one_clip))"
proof -
  note t = destroy_removes_every_subscription [OF distinct_one_clip, of 0]
  have a: "(''/live/volume'', TrackL 0 T_volume) \<in> set (track_subs 0)"
    "(''/live/clip/info'', ClipL 0 C_clipinfo) \<in> set (clip_subs 0)"
    "(''/live/tracks'', SongL S_tracks) \<in> set song_subs"
    "(''/live/tracks'', SongL S_tracks) \<notin> set (track_subs 0)"
    "(''/live/tracks'', SongL S_tracks) \<notin> set (clip_subs 0)"
    by (simp_all add: track_subs_def clip_subs_def song_subs_def)
  have b: "t_clips (trackH one_clip 0) = [0]" "t_devices (trackH one_clip 0) = []"
    by (simp_all add: one_clip_fields new_track_def)
  have c: "(''/live/volume'', TrackL 0 T_volume) \<in> set (subs one_clip)
   \<and> (''/live/volume'', TrackL 0 T_volume) \<notin> set (subs (Track_destroy 0 one_clip))
   \<and> (''/live/clip/info'', ClipL 0 C_clipinfo) \<in> set (subs one_clip)
   \<and> (''/live/clip/info'', ClipL 0 C_clipinfo) \<notin> set (subs (Track_destroy 0 one_clip))
   \<and> (''/live/clip/info'', ClipL 0 C_clipinfo) \<notin> set (subs (Clip_destroy 0 one_clip))
   \<and> (''/live/tracks'', SongL S_tracks) \<in> set (subs (Track_destroy 0 one_clip))"
    using a by (simp add: t b one_clip_subs)
  from distinct_one_clip c show ?thesis
    by (rule conjI)
qed

section \<open>Runs of volume notifications\<close>

lemma Track_volume_run:
  "\<not> loose_ne i (t_id (trackH w r)) \<Longrightarrow>
   events (fold (\<lambda>v. Track_volumeListener r [i, v]) vs w) =
     events w @ volume_events r (t_id (trackH w r)) (t_volume (trackH w r)) vs
   \<and> t_id (trackH (fold (\<lambda>v. Track_volumeListener r [i, v]) vs w) r) = t_id (trackH w r)
   \<and> t_volume (trackH (fold (\<lambda>v. Track_volumeListener r [i, v]) vs w) r) =
       last (t_volume (trackH w r) # vs)"
proof (induction vs arbitrary: w)
  case Nil
  show ?case
    by simp
next
  case (Cons v vs)
  let ?w = "Track_volumeListener r [i, v] w"
  have step: "?w = w\<lparr>trackH := (trackH w)(r := (trackH w r)\<lparr>t_volume := v\<rparr>),
      events := events w @
        [(TrackSink r, Plain (Str ''volume''),
            Some [(''value'', v), (''prev'', t_volume (trackH w r))]),
         (SongSink, Prefixed ''track:'' (Str ''volume''),
            Some [(''id'', t_id (trackH w r)), (''value'', v), (''prev'', t_volume (trackH w r))])]\<rparr>"
    using Cons.prems
    by (simp add: Track_volumeListener_def Track_emitEvent_def arg_def prim_defs Let_def)
  have "\<not> loose_ne i (t_id (trackH ?w r))"
    using Cons.prems by (simp add: step)
  from Cons.IH [OF this] show ?case
    by (simp add: step)
qed

lemma length_volume_events: "length (volume_events r i prev vs) = 2 * length vs"
  by (induction vs arbitrary: prev) auto


text \<open>
  A run of volume notifications for the matching track emits, for each of them, one local
  and one global event that carry the volume stored just before that notification as
  \<open>prev\<close>; the track ends with the last volume received.
\<close>

theorem Track_volume_notifications:
  assumes "\<not> loose_ne i (t_id (trackH w r))"
  shows "events (fold (\<lambda>v. Track_volumeListener r [i, v]) vs w) =
           events w @ volume_events r (t_id (trackH w r)) (t_volume (trackH w r)) vs"
    and "length (volume_events r (t_id (trackH w r)) (t_volume (trackH w r)) vs) = 2 * length vs"
    and "t_volume (trackH (fold (\<lambda>v. Track_volumeListener r [i, v]) vs w) r) =
           last (t_volume (trackH w r) # vs)"
  using Track_volume_run [OF assms, of vs]
  by (simp_all add: length_volume_events)

theorem Track_volume_notifications_witness:
  "\<not> loose_ne (Num 0) (t_id (trackH one_track 0))
   \<and> events (fold (\<lambda>v. Track_volumeListener 0 [Num 0, v]) [Num 0.5, Num 0.7] one_track) =
       events one_track @
         [(TrackSink 0, Plain (Str ''volume''), Some [(''value'', Num 0.5), (''prev'', Num 0)]),
          (SongSink, Prefixed ''track:'' (Str ''volume''),
             Some [(''id'', Num 0), (''value'', Num 0.5), (''prev'', Num 0)]),
          (TrackSink 0, Plain (Str ''volume''), Some [(''value'', Num 0.7), (''prev'', Num 0.5)]),
          (SongSink, Prefixed ''track:'' (Str ''volume''),
             Some [(''id'', Num 0), (''value'', Num 0.7), (''prev'', Num 0.5)])]
   \<and> t_volume (trackH (fold (\<lambda>v. Track_volumeListener 0 [Num 0, v]) [Num 0.5, Num 0.7] one_track) 0)
       = Num 0.7"
proof -
  have m: "\<not> loose_ne (Num 0) (t_id (trackH one_track 0))"
    by (simp add: one_track_fields new_track_def loose_ne_def)
  from m Track_volume_notifications [OF m, of "[Num 0.5, Num 0.7]"]
  show ?thesis
    by (simp add: one_track_fields new_track_def)
qed

end
